theory Spec2Isabelle
  imports Complex_Main "HOL-Library.AList" "HOL-Library.Sublist"
begin

section \<open>Python values, dictionaries and exceptions\<close>

text \<open>
  The gates exchange plain Python data: ticker strings, lists of tickers and result
  dictionaries whose values are numbers, strings, booleans, \<open>None\<close> or nested
  dictionaries. A dictionary is an association list read through \<open>map_of\<close> and written
  through \<open>AList.update\<close>, which keeps the position of an existing key and appends a new
  one, as Python's insertion-ordered \<open>dict\<close> does. Prices are Python floats; the model
  computes with them as real numbers, so rounding happens only where the source calls
  \<open>round\<close>.
\<close>

type_synonym ticker = string

datatype pyval =
    PNone
  | PBool bool
  | PNum real
  | PStr string
  | PList "pyval list"
  | PTuple "pyval list"
  | PDict "(string \<times> pyval) list"

type_synonym pydict = "(string \<times> pyval) list"

datatype py_error =
    KeyError string
  | IndexError
  | TypeError
  | ExternalError string

text \<open>\<open>d.get(k, default)\<close>.\<close>

definition dict_get :: "(string \<times> 'v) list \<Rightarrow> string \<Rightarrow> 'v \<Rightarrow> 'v" where
  "dict_get d k dflt = (case map_of d k of None \<Rightarrow> dflt | Some v \<Rightarrow> v)"

text \<open>\<open>d[k]\<close>, which raises \<open>KeyError\<close> on a missing key.\<close>

definition dict_item :: "(string \<times> 'v) list \<Rightarrow> string \<Rightarrow> py_error + 'v" where
  "dict_item d k = (case map_of d k of None \<Rightarrow> Inl (KeyError k) | Some v \<Rightarrow> Inr v)"

text \<open>\<open>{t: source[t] for t in keys}\<close>: one \<open>KeyError\<close> aborts the comprehension.\<close>

fun dict_comp :: "(string \<times> 'v) list \<Rightarrow> string list \<Rightarrow> (string \<times> 'v) list
    \<Rightarrow> py_error + (string \<times> 'v) list" where
  "dict_comp source [] acc = Inr acc"
| "dict_comp source (t # ts) acc =
     (case map_of source t of
        None \<Rightarrow> Inl (KeyError t)
      | Some v \<Rightarrow> dict_comp source ts (AList.update t v acc))"

text \<open>Substring test on strings, the meaning of \<open>needle in haystack\<close> for two \<open>str\<close>.\<close>

fun str_contains :: "string \<Rightarrow> string \<Rightarrow> bool" where
  "str_contains needle [] = (needle = [])"
| "str_contains needle (c # cs) = (prefix needle (c # cs) \<or> str_contains needle cs)"

text \<open>
  The operator \<open>s in v\<close> for a string \<open>s\<close>: substring on a string, membership on a list
  or tuple, key membership on a dictionary, \<open>TypeError\<close> on anything else.
\<close>

fun py_in :: "string \<Rightarrow> pyval \<Rightarrow> py_error + bool" where
  "py_in s (PStr r) = Inr (str_contains s r)"
| "py_in s (PList xs) = Inr (PStr s \<in> set xs)"
| "py_in s (PTuple xs) = Inr (PStr s \<in> set xs)"
| "py_in s (PDict d) = Inr (s \<in> fst ` set d)"
| "py_in s PNone = Inl TypeError"
| "py_in s (PBool b) = Inl TypeError"
| "py_in s (PNum x) = Inl TypeError"

text \<open>Truth value of a Python object, as used by \<open>x or y\<close>.\<close>

fun py_truthy :: "pyval \<Rightarrow> bool" where
  "py_truthy PNone = False"
| "py_truthy (PBool b) = b"
| "py_truthy (PNum x) = (x \<noteq> 0)"
| "py_truthy (PStr s) = (s \<noteq> [])"
| "py_truthy (PList xs) = (xs \<noteq> [])"
| "py_truthy (PTuple xs) = (xs \<noteq> [])"
| "py_truthy (PDict d) = (d \<noteq> [])"

section \<open>Batch, gates and rationale\<close>

record ohlcv =
  Open :: "real list"
  High :: "real list"
  Low :: "real list"
  Close :: "real list"
  Volume :: "real list"

type_synonym batch = "(ticker \<times> ohlcv) list"

text \<open>A gate's rationale: \<open>{ticker: result_dict}\<close>.\<close>

type_synonym rationale = "(ticker \<times> pydict) list"

type_synonym gate_out = "ticker list \<times> rationale"

text \<open>
  The gate classes (\<open>gates/gate1_spread.py\<close> and its siblings) are collaborators of the
  orchestration code verified here, so each gate's \<open>run\<close> method is a parameter: a
  function from its arguments to the pair of its survivor list and its rationale.
\<close>

record gates =
  gate1_run :: "batch \<Rightarrow> (ticker \<times> pyval) list option \<Rightarrow> gate_out"
  gate2_run :: "ticker list \<Rightarrow> gate_out"
  gate2b_run :: "ticker list \<Rightarrow> (ticker \<times> pyval) list \<Rightarrow> gate_out"
  gate3_run :: "batch \<Rightarrow> gate_out"
  gate4_run :: "batch \<Rightarrow> gate_out"

section \<open>\<open>SwingFilter\<close> (swing\_filter.py)\<close>

text \<open>
  \<open>_log_gate_results(main_log, gate_name, gate_results)\<close>: for every ticker of the gate's
  rationale, create the ticker's inner dictionary when it is missing and store the result
  under the gate's name.
\<close>

definition log_one :: "string \<Rightarrow> ticker \<times> pydict \<Rightarrow> rationale \<Rightarrow> rationale" where
  "log_one gate_name = (\<lambda>(ticker, result) main_log.
     (let main_log1 = (if map_of main_log ticker = None
                       then AList.update ticker [] main_log else main_log)
      in AList.update ticker
           (AList.update gate_name (PDict result) (dict_get main_log1 ticker [])) main_log1))"

definition log_gate_results :: "rationale \<Rightarrow> string \<Rightarrow> rationale \<Rightarrow> rationale" where
  "log_gate_results main_log gate_name gate_results =
     fold (log_one gate_name) gate_results main_log"

text \<open>
  The market-cap map handed to Gate 2B (lines 66 to 74): from the institutional-universe
  format when the first value of \<open>sector_map\<close> is a dictionary, and \<open>SMALL\<close> for every
  Gate 2 survivor otherwise.
\<close>

fun is_dict :: "pyval \<Rightarrow> bool" where
  "is_dict (PDict d) = True"
| "is_dict v = False"

definition cap_entry :: "ticker \<times> pyval \<Rightarrow> (ticker \<times> pyval) list \<Rightarrow> (ticker \<times> pyval) list" where
  "cap_entry = (\<lambda>(ticker, meta) market_cap_map.
     (case meta of
        PDict m \<Rightarrow> AList.update ticker (dict_get m ''market_cap'' (PStr ''SMALL'')) market_cap_map
      | _ \<Rightarrow> market_cap_map))"

definition build_market_cap_map ::
    "(ticker \<times> pyval) list option \<Rightarrow> ticker list \<Rightarrow> (ticker \<times> pyval) list" where
  "build_market_cap_map sector_map passed_g2 =
     (case sector_map of
        Some (first # others) \<Rightarrow>
          if is_dict (snd first) then fold cap_entry (first # others) []
          else fold (\<lambda>t m. AList.update t (PStr ''SMALL'') m) passed_g2 []
      | _ \<Rightarrow> fold (\<lambda>t m. AList.update t (PStr ''SMALL'') m) passed_g2 [])"

text \<open>
  The watchlist loop (lines 91 to 126). The three substring tests read the same operand,
  so they raise together or not at all.
\<close>

definition is_sniper_fail :: "pyval \<Rightarrow> py_error + bool" where
  "is_sniper_fail reason =
     (case py_in ''ADX'' reason of
        Inl e \<Rightarrow> Inl e
      | Inr a \<Rightarrow> if a then Inr True else
         (case py_in ''RS Slope'' reason of
            Inl e \<Rightarrow> Inl e
          | Inr b \<Rightarrow> if b then Inr True else py_in ''RS Negative'' reason))"

definition spring_entry :: "rationale \<Rightarrow> rationale \<Rightarrow> rationale \<Rightarrow> rationale
    \<Rightarrow> (ticker \<times> pyval) list \<Rightarrow> ticker \<Rightarrow> pyval \<Rightarrow> pydict" where
  "spring_entry rationale_g1 rationale_g2 rationale_g2b rationale_g3 market_cap_map ticker reason =
     (let g3_res = dict_get rationale_g3 ticker [];
          g2_res = dict_get rationale_g2 ticker [];
          g2b_res = dict_get rationale_g2b ticker [];
          g1_res = dict_get rationale_g1 ticker [];
          cap_category = dict_get market_cap_map ticker (PStr ''UNKNOWN'')
      in [(''ticker'', PStr ticker),
          (''close'', dict_get g3_res ''close'' (PNum 0)),
          (''sector'', dict_get g1_res ''sector'' (PStr ''Unknown'')),
          (''reason'', reason),
          (''f_score'', dict_get g2_res ''f_score'' (PNum 0)),
          (''mrs'', dict_get g3_res ''mrs'' (PNum 0)),
          (''market_cap'', cap_category),
          (''inst_ownership'', dict_get g2b_res ''inst_ownership'' (PNum 0))])"

definition tag_status :: "rationale \<Rightarrow> ticker \<Rightarrow> rationale" where
  "tag_status full_rationale ticker =
     (case map_of full_rationale ticker of
        None \<Rightarrow> full_rationale
      | Some inner \<Rightarrow>
          AList.update ticker (AList.update ''status'' (PStr ''COILING_SPRING'') inner)
            full_rationale)"

fun capture_watchlist :: "rationale \<Rightarrow> rationale \<Rightarrow> rationale \<Rightarrow> rationale
    \<Rightarrow> (ticker \<times> pyval) list \<Rightarrow> ticker list \<Rightarrow> ticker list
    \<Rightarrow> pydict list \<Rightarrow> rationale \<Rightarrow> py_error + (pydict list \<times> rationale)" where
  "capture_watchlist r1 r2 r2b r3 caps passed_g3 [] coiling_springs full_rationale =
     Inr (coiling_springs, full_rationale)"
| "capture_watchlist r1 r2 r2b r3 caps passed_g3 (ticker # rest) coiling_springs full_rationale =
     (if ticker \<notin> set passed_g3 then
        (let reason = dict_get (dict_get r3 ticker []) ''reason'' (PStr '''')
         in case is_sniper_fail reason of
              Inl e \<Rightarrow> Inl e
            | Inr True \<Rightarrow>
                capture_watchlist r1 r2 r2b r3 caps passed_g3 rest
                  (coiling_springs @ [spring_entry r1 r2 r2b r3 caps ticker reason])
                  (tag_status full_rationale ticker)
            | Inr False \<Rightarrow>
                capture_watchlist r1 r2 r2b r3 caps passed_g3 rest coiling_springs full_rationale)
      else capture_watchlist r1 r2 r2b r3 caps passed_g3 rest coiling_springs full_rationale)"

text \<open>
  \<open>run_pipeline(ticker_data, sector_map)\<close>. Every \<open>return\<close> of the source hands back
  three components: the candidates, the rationale and the watchlist.
\<close>

definition run_pipeline :: "gates \<Rightarrow> batch \<Rightarrow> (ticker \<times> pyval) list option
    \<Rightarrow> py_error + (ticker list \<times> rationale \<times> pydict list)" where
  "run_pipeline g ticker_data sector_map =
    (let (passed_g1, rationale_g1) = gate1_run g ticker_data sector_map;
         full_rationale1 = log_gate_results [] ''Gate1_Spread'' rationale_g1
     in if passed_g1 = [] then Inr ([], full_rationale1, []) else
     case dict_comp ticker_data passed_g1 [] of
       Inl e \<Rightarrow> Inl e
     | Inr data_g1 \<Rightarrow>
    (let (passed_g2, rationale_g2) = gate2_run g passed_g1;
         full_rationale2 = log_gate_results full_rationale1 ''Gate2_Fundamentals'' rationale_g2
     in if passed_g2 = [] then Inr ([], full_rationale2, []) else
    (let market_cap_map = build_market_cap_map sector_map passed_g2;
         (passed_g2b, rationale_g2b) = gate2b_run g passed_g2 market_cap_map;
         full_rationale3 = log_gate_results full_rationale2 ''Gate2B_Institutional'' rationale_g2b
     in if passed_g2b = [] then Inr ([], full_rationale3, []) else
     case dict_comp ticker_data passed_g2b [] of
       Inl e \<Rightarrow> Inl e
     | Inr data_g2b \<Rightarrow>
    (let (passed_g3, rationale_g3) = gate3_run g data_g2b;
         full_rationale4 = log_gate_results full_rationale3 ''Gate3_Technicals'' rationale_g3
     in case capture_watchlist rationale_g1 rationale_g2 rationale_g2b rationale_g3
               market_cap_map passed_g3 passed_g2b [] full_rationale4 of
       Inl e \<Rightarrow> Inl e
     | Inr (coiling_springs, full_rationale5) \<Rightarrow>
       if passed_g3 = [] then Inr ([], full_rationale5, coiling_springs) else
       case dict_comp ticker_data passed_g3 [] of
         Inl e \<Rightarrow> Inl e
       | Inr data_g3 \<Rightarrow>
      (let (passed_g4, rationale_g4) = gate4_run g data_g3;
           full_rationale6 = log_gate_results full_rationale5 ''Gate4_Execution'' rationale_g4
       in Inr (passed_g4, full_rationale6, coiling_springs))))))"

section \<open>\<open>Orchestrator.run_scan\<close> (orchestrator.py)\<close>

text \<open>
  \<open>round(x, 2)\<close>: the nearest multiple of one hundredth, a tie going to the even one.
\<close>

definition py_round2 :: "real \<Rightarrow> real" where
  "py_round2 x =
     (let y = x * 100; f = \<lfloor>y\<rfloor>; d = y - of_int f
      in (if d < 1 / 2 then of_int f
          else if 1 / 2 < d then of_int (f + 1)
          else if even f then of_int f else of_int (f + 1)) / 100)"

text \<open>\<open>series.iloc[-1]\<close>, which raises \<open>IndexError\<close> on an empty series.\<close>

definition iloc_last :: "real list \<Rightarrow> py_error + real" where
  "iloc_last xs = (if xs = [] then Inl IndexError else Inr (last xs))"

record trade_meta =
  tm_entry :: real
  tm_sl :: real
  tm_target :: real
  tm_period :: string
  tm_risk_reward :: string

record candidate =
  c_ticker :: ticker
  c_status :: string
  c_name :: pyval
  c_cap :: pyval
  c_sector :: pyval
  c_adx :: pyval
  c_mrs :: pyval
  c_mrs_slope :: pyval
  c_pattern :: pyval
  c_reason :: pyval
  c_trade :: trade_meta
  c_chart_daily :: pyval
  c_chart_weekly :: pyval
  c_chart_monthly :: pyval

text \<open>
  The two libraries the post-processing calls: the average-true-range series of the
  \<open>ta\<close> package and the chart engine. Either may raise.
\<close>

record env =
  average_true_range :: "real list \<Rightarrow> real list \<Rightarrow> real list \<Rightarrow> nat \<Rightarrow> py_error + real list"
  generate_trade_chart :: "ticker \<Rightarrow> ohlcv \<Rightarrow> trade_meta \<Rightarrow> pyval \<Rightarrow> string \<Rightarrow> py_error + pyval"

text \<open>Lines 67 to 69: the fetched sectors are written into the universe's metadata.\<close>

definition merge_sectors :: "rationale \<Rightarrow> (ticker \<times> string) list \<Rightarrow> rationale" where
  "merge_sectors universe ticker_sectors =
     fold (\<lambda>(t, sector) u.
             case map_of u t of
               None \<Rightarrow> u
             | Some meta \<Rightarrow> AList.update t (AList.update ''sector'' (PStr sector) meta) u)
          ticker_sectors universe"

text \<open>Lines 94 to 99: every Gate 2B survivor that Gate 3 did not pass is tagged.\<close>

fun tag_coiling :: "ticker list \<Rightarrow> ticker list \<Rightarrow> rationale \<Rightarrow> rationale" where
  "tag_coiling finds [] g3_rationale = g3_rationale"
| "tag_coiling finds (t # ts) g3_rationale =
     tag_coiling finds ts
       (if t \<notin> set finds then
          (case map_of g3_rationale t of
             Some res \<Rightarrow>
               AList.update t (AList.update ''status'' (PStr ''COILING_SPRING'') res) g3_rationale
           | None \<Rightarrow>
               AList.update t [(''passed'', PBool False), (''status'', PStr ''COILING_SPRING''),
                               (''reason'', PStr ''Technical filters not met'')] g3_rationale)
        else g3_rationale)"

text \<open>Line 123: the holding-period label.\<close>

definition holding_period :: "pyval \<Rightarrow> py_error + string" where
  "holding_period pattern =
     (case py_in ''VCP'' (if py_truthy pattern then pattern else PStr []) of
        Inl e \<Rightarrow> Inl e
      | Inr vcp \<Rightarrow> Inr (if vcp then ''Swing (2-6 Weeks)'' else ''Positional (1-3 Months)''))"

text \<open>The body of the \<open>try\<close> block (lines 109 to 155) for one ticker.\<close>

definition process_ticker :: "env \<Rightarrow> rationale \<Rightarrow> batch \<Rightarrow> rationale \<Rightarrow> ticker list
    \<Rightarrow> ticker \<Rightarrow> py_error + candidate" where
  "process_ticker ev universe ticker_data g3_rationale finds t =
    (case dict_item ticker_data t of
       Inl e \<Rightarrow> Inl e
     | Inr df \<Rightarrow>
    (let meta = dict_get universe t [];
         rat = dict_get g3_rationale t []
     in case iloc_last (Close df) of
       Inl e \<Rightarrow> Inl e
     | Inr entry \<Rightarrow>
    (case average_true_range ev (High df) (Low df) (Close df) 14 of
       Inl e \<Rightarrow> Inl e
     | Inr atr_series \<Rightarrow>
    (case iloc_last atr_series of
       Inl e \<Rightarrow> Inl e
     | Inr atr \<Rightarrow>
    (let stop = entry - 2 * atr;
         risk = entry - stop;
         tgt = entry + 2 * risk;
         pattern = dict_get rat ''pattern'' (PStr [])
     in case holding_period pattern of
       Inl e \<Rightarrow> Inl e
     | Inr label \<Rightarrow>
    (let trade = \<lparr>tm_entry = py_round2 entry, tm_sl = py_round2 stop,
                  tm_target = py_round2 tgt, tm_period = label, tm_risk_reward = ''1:2''\<rparr>
     in case generate_trade_chart ev t df trade pattern ''1D'' of
       Inl e \<Rightarrow> Inl e
     | Inr chart_d \<Rightarrow>
    (case generate_trade_chart ev t df trade pattern ''1W'' of
       Inl e \<Rightarrow> Inl e
     | Inr chart_w \<Rightarrow>
    (case generate_trade_chart ev t df trade pattern ''1M'' of
       Inl e \<Rightarrow> Inl e
     | Inr chart_m \<Rightarrow>
       Inr \<lparr>c_ticker = t,
            c_status = (if t \<in> set finds then ''BUY'' else ''COILING_SPRING''),
            c_name = dict_get meta ''name'' (PStr ''Unknown''),
            c_cap = dict_get meta ''market_cap'' (PStr ''SMALL''),
            c_sector = dict_get meta ''sector'' (PStr ''Diversified''),
            c_adx = dict_get rat ''adx'' PNone,
            c_mrs = dict_get rat ''mrs'' PNone,
            c_mrs_slope = dict_get rat ''mrs_slope'' PNone,
            c_pattern = pattern,
            c_reason = dict_get rat ''reason'' (PStr ''Consolidating''),
            c_trade = trade,
            c_chart_daily = chart_d, c_chart_weekly = chart_w,
            c_chart_monthly = chart_m\<rparr>))))))))"

text \<open>
  The loop of lines 107 to 157: an exception of one ticker is logged and the loop goes on.
\<close>

fun post_process :: "(ticker \<Rightarrow> py_error + candidate) \<Rightarrow> ticker list \<Rightarrow> candidate list
    \<Rightarrow> (ticker \<times> py_error) list \<Rightarrow> candidate list \<times> (ticker \<times> py_error) list" where
  "post_process body [] results logged = (results, logged)"
| "post_process body (t # ts) results logged =
     (case body t of
        Inr c \<Rightarrow> post_process body ts (results @ [c]) logged
      | Inl e \<Rightarrow> post_process body ts results (logged @ [(t, e)]))"

text \<open>Line 161: \<open>{**g1, **g2, **g2b, **g3}\<close>, keyed by ticker.\<close>

definition dict_merge :: "(string \<times> 'v) list list \<Rightarrow> (string \<times> 'v) list" where
  "dict_merge ds = fold (\<lambda>(k, v) acc. AList.update k v acc) (concat ds) []"

record scan_out =
  returned :: "candidate list"
  snapshot :: "(candidate list \<times> rationale) option"
  logged_errors :: "(ticker \<times> py_error) list"

definition universe_map :: "rationale \<Rightarrow> (ticker \<times> pyval) list" where
  "universe_map universe = map (\<lambda>(t, meta). (t, PDict meta)) universe"

text \<open>
  \<open>run_scan\<close> from the fetched data on: the discovered universe, the OHLCV batch and the
  sector map are its inputs; the value returned, the snapshot saved and the errors logged
  are its outputs.
\<close>

definition run_scan :: "gates \<Rightarrow> env \<Rightarrow> rationale \<Rightarrow> batch \<Rightarrow> (ticker \<times> string) list
    \<Rightarrow> py_error + scan_out" where
  "run_scan g ev universe0 ticker_data ticker_sectors =
    (let universe = merge_sectors universe0 ticker_sectors;
         (g1_passed, g1_rationale) = gate1_run g ticker_data (Some (universe_map universe))
     in if g1_passed = [] then Inr \<lparr>returned = [], snapshot = None, logged_errors = []\<rparr> else
    (let (g2_passed, g2_rationale) = gate2_run g g1_passed;
         (g2b_passed, g2b_rationale) = gate2b_run g g2_passed (universe_map universe)
     in if g2b_passed = [] then Inr \<lparr>returned = [], snapshot = None, logged_errors = []\<rparr> else
     case dict_comp ticker_data g2b_passed [] of
       Inl e \<Rightarrow> Inl e
     | Inr g3_data \<Rightarrow>
    (let (finds, g3_rationale0) = gate3_run g g3_data;
         g3_rationale = tag_coiling finds g2b_passed g3_rationale0;
         (results, logged) =
            post_process (process_ticker ev universe ticker_data g3_rationale finds)
              g2b_passed [] [];
         all_rationale = dict_merge [g1_rationale, g2_rationale, g2b_rationale, g3_rationale]
     in Inr \<lparr>returned = results, snapshot = Some (results, all_rationale),
             logged_errors = logged\<rparr>)))"

section \<open>A worked example\<close>

text \<open>
  Gates that read their verdicts from a table, and a batch of six tickers: \<open>A\<close> clears
  every gate, \<open>B\<close> fails Gate 3 on ADX, \<open>C\<close> fails Gate 3 on the trend template, \<open>D\<close>
  fails Gate 1, \<open>E\<close> and \<open>F\<close> clear Gate 3 and fail Gate 4. The ATR library raises on
  \<open>E\<close> and yields zero on \<open>B\<close>.
\<close>

definition verdict_gate :: "rationale \<Rightarrow> ticker list \<Rightarrow> gate_out" where
  "verdict_gate table tickers =
     (filter (\<lambda>t. dict_get (dict_get table t []) ''passed'' (PBool False) = PBool True) tickers,
      map (\<lambda>t. (t, dict_get table t [(''passed'', PBool False)])) tickers)"

definition example_gates :: gates where
  "example_gates = \<lparr>
     gate1_run = (\<lambda>td sm. verdict_gate
        [(''A'', [(''passed'', PBool True), (''sector'', PStr ''IT'')]),
         (''B'', [(''passed'', PBool True), (''sector'', PStr ''IT'')]),
         (''C'', [(''passed'', PBool True), (''sector'', PStr ''Auto'')]),
         (''D'', [(''passed'', PBool False), (''reason'', PStr ''Spread too wide'')]),
         (''E'', [(''passed'', PBool True), (''sector'', PStr ''Auto'')]),
         (''F'', [(''passed'', PBool True), (''sector'', PStr ''Auto'')])] (map fst td)),
     gate2_run = verdict_gate
        [(''A'', [(''passed'', PBool True), (''f_score'', PNum 7)]),
         (''B'', [(''passed'', PBool True), (''f_score'', PNum 5)]),
         (''C'', [(''passed'', PBool True), (''f_score'', PNum 4)]),
         (''E'', [(''passed'', PBool True), (''f_score'', PNum 6)]),
         (''F'', [(''passed'', PBool True), (''f_score'', PNum 6)])],
     gate2b_run = (\<lambda>s caps. verdict_gate
        [(''A'', [(''passed'', PBool True), (''inst_ownership'', PNum 30)]),
         (''B'', [(''passed'', PBool True), (''inst_ownership'', PNum 25)]),
         (''C'', [(''passed'', PBool True), (''inst_ownership'', PNum 20)]),
         (''E'', [(''passed'', PBool True), (''inst_ownership'', PNum 20)]),
         (''F'', [(''passed'', PBool True), (''inst_ownership'', PNum 20)])] s),
     gate3_run = (\<lambda>td. verdict_gate
        [(''A'', [(''passed'', PBool True), (''pattern'', PStr ''VCP Tight''),
                  (''reason'', PStr ''Trend OK'')]),
         (''B'', [(''passed'', PBool False), (''reason'', PStr ''ADX 8 < 10'')]),
         (''C'', [(''passed'', PBool False), (''reason'', PStr ''Price below MA200'')]),
         (''E'', [(''passed'', PBool True), (''reason'', PStr ''Trend OK'')]),
         (''F'', [(''passed'', PBool True), (''pattern'', PNone),
                  (''reason'', PStr ''Trend OK'')])] (map fst td)),
     gate4_run = (\<lambda>td. verdict_gate
        [(''A'', [(''passed'', PBool True), (''reason'', PStr ''Volume OK'')]),
         (''E'', [(''passed'', PBool False), (''reason'', PStr ''Volume low'')]),
         (''F'', [(''passed'', PBool False), (''reason'', PStr ''Volume low'')])] (map fst td)) \<rparr>"

definition one_bar :: "real \<Rightarrow> ohlcv" where
  "one_bar p = \<lparr>Open = [p], High = [p], Low = [p], Close = [p], Volume = [1000]\<rparr>"

definition example_batch :: batch where
  "example_batch = [(''A'', one_bar (100004 / 1000)), (''B'', one_bar 50), (''C'', one_bar 20),
                    (''D'', one_bar 10), (''E'', one_bar 30), (''F'', one_bar 40)]"

definition example_env :: env where
  "example_env = \<lparr>
     average_true_range = (\<lambda>h l c w. if c = [30] then Inl (ExternalError ''ZeroDivisionError'')
                                      else if c = [50] then Inr [0] else Inr [1 / 80]),
     generate_trade_chart = (\<lambda>t df tm p tf. Inr (PStr (t @ tf))) \<rparr>"

definition example_universe :: rationale where
  "example_universe = [(''A'', [(''name'', PStr ''Alpha''), (''market_cap'', PStr ''LARGE'')]),
                       (''B'', [(''name'', PStr ''Beta'')])]"

text \<open>The scan's outputs read off a result, empty where the scan raised.\<close>

definition returned_of :: "py_error + scan_out \<Rightarrow> candidate list" where
  "returned_of r = (case r of Inr out \<Rightarrow> returned out | Inl e \<Rightarrow> [])"

definition rationale_of :: "py_error + scan_out \<Rightarrow> rationale" where
  "rationale_of r = (case r of Inr out \<Rightarrow> (case snapshot out of Some (cs, rat) \<Rightarrow> rat | None \<Rightarrow> [])
                             | Inl e \<Rightarrow> [])"

definition logged_of :: "py_error + scan_out \<Rightarrow> (ticker \<times> py_error) list" where
  "logged_of r = (case r of Inr out \<Rightarrow> logged_errors out | Inl e \<Rightarrow> [])"

definition example_scan :: "py_error + scan_out" where
  "example_scan = run_scan example_gates example_env example_universe example_batch [(''A'', ''IT'')]"


definition example_pipeline :: "py_error + (ticker list \<times> rationale \<times> pydict list)" where
  "example_pipeline = run_pipeline example_gates example_batch None"

section \<open>Market-cap tiers and the value returned by \<open>run_pipeline\<close>\<close>





definition select_data :: "batch \<Rightarrow> ticker list \<Rightarrow> batch" where
  "select_data td s = (case dict_comp td s [] of Inr d \<Rightarrow> d | Inl e \<Rightarrow> [])"

definition scan_g1 :: "gates \<Rightarrow> rationale \<Rightarrow> batch \<Rightarrow> (ticker \<times> string) list \<Rightarrow> gate_out" where
  "scan_g1 g u0 td ts = gate1_run g td (Some (universe_map (merge_sectors u0 ts)))"

definition scan_g2 :: "gates \<Rightarrow> rationale \<Rightarrow> batch \<Rightarrow> (ticker \<times> string) list \<Rightarrow> gate_out" where
  "scan_g2 g u0 td ts = gate2_run g (fst (scan_g1 g u0 td ts))"

definition scan_g2b :: "gates \<Rightarrow> rationale \<Rightarrow> batch \<Rightarrow> (ticker \<times> string) list \<Rightarrow> gate_out" where
  "scan_g2b g u0 td ts =
     gate2b_run g (fst (scan_g2 g u0 td ts)) (universe_map (merge_sectors u0 ts))"

definition scan_survivors_g2b :: "gates \<Rightarrow> rationale \<Rightarrow> batch \<Rightarrow> (ticker \<times> string) list \<Rightarrow> ticker list" where
  "scan_survivors_g2b g u0 td ts =
     (if fst (scan_g1 g u0 td ts) = [] then [] else fst (scan_g2b g u0 td ts))"

definition scan_g3 :: "gates \<Rightarrow> rationale \<Rightarrow> batch \<Rightarrow> (ticker \<times> string) list \<Rightarrow> gate_out" where
  "scan_g3 g u0 td ts = gate3_run g (select_data td (scan_survivors_g2b g u0 td ts))"

definition scan_g3_rationale :: "gates \<Rightarrow> rationale \<Rightarrow> batch \<Rightarrow> (ticker \<times> string) list \<Rightarrow> rationale" where
  "scan_g3_rationale g u0 td ts =
     tag_coiling (fst (scan_g3 g u0 td ts)) (scan_survivors_g2b g u0 td ts) (snd (scan_g3 g u0 td ts))"

definition scan_body :: "gates \<Rightarrow> env \<Rightarrow> rationale \<Rightarrow> batch \<Rightarrow> (ticker \<times> string) list
    \<Rightarrow> ticker \<Rightarrow> py_error + candidate" where
  "scan_body g ev u0 td ts =
     process_ticker ev (merge_sectors u0 ts) td (scan_g3_rationale g u0 td ts)
       (fst (scan_g3 g u0 td ts))"

definition scan_rationale :: "gates \<Rightarrow> rationale \<Rightarrow> batch \<Rightarrow> (ticker \<times> string) list \<Rightarrow> rationale" where
  "scan_rationale g u0 td ts =
     dict_merge [snd (scan_g1 g u0 td ts), snd (scan_g2 g u0 td ts), snd (scan_g2b g u0 td ts),
                 scan_g3_rationale g u0 td ts]"

definition succeeded :: "(ticker \<Rightarrow> py_error + candidate) \<Rightarrow> ticker \<Rightarrow> candidate option" where
  "succeeded body t = (case body t of Inr c \<Rightarrow> Some c | Inl e \<Rightarrow> None)"

definition failed :: "(ticker \<Rightarrow> py_error + candidate) \<Rightarrow> ticker \<Rightarrow> (ticker \<times> py_error) option" where
  "failed body t = (case body t of Inr c \<Rightarrow> None | Inl e \<Rightarrow> Some (t, e))"

text \<open>The three chart calls of one ticker return.\<close>

definition charts_ok :: "env \<Rightarrow> ticker \<Rightarrow> ohlcv \<Rightarrow> trade_meta \<Rightarrow> pyval \<Rightarrow> bool" where
  "charts_ok ev t df trade pattern \<longleftrightarrow>
     \<not> isl (generate_trade_chart ev t df trade pattern ''1D'') \<and>
     \<not> isl (generate_trade_chart ev t df trade pattern ''1W'') \<and>
     \<not> isl (generate_trade_chart ev t df trade pattern ''1M'')"

section \<open>The stages of \<open>run_pipeline\<close>\<close>

text \<open>
  The outputs of the five gates as \<open>run_pipeline\<close> computes them, each gate applied to
  what the previous one let through, and the rationale logged after each of the first
  four.
\<close>

definition pipe_g1 :: "gates \<Rightarrow> batch \<Rightarrow> (ticker \<times> pyval) list option \<Rightarrow> gate_out" where
  "pipe_g1 g td sm = gate1_run g td sm"

definition pipe_g2 :: "gates \<Rightarrow> batch \<Rightarrow> (ticker \<times> pyval) list option \<Rightarrow> gate_out" where
  "pipe_g2 g td sm = gate2_run g (fst (pipe_g1 g td sm))"

definition pipe_caps :: "gates \<Rightarrow> batch \<Rightarrow> (ticker \<times> pyval) list option
    \<Rightarrow> (ticker \<times> pyval) list" where
  "pipe_caps g td sm = build_market_cap_map sm (fst (pipe_g2 g td sm))"

definition pipe_g2b :: "gates \<Rightarrow> batch \<Rightarrow> (ticker \<times> pyval) list option \<Rightarrow> gate_out" where
  "pipe_g2b g td sm = gate2b_run g (fst (pipe_g2 g td sm)) (pipe_caps g td sm)"

definition pipe_g3 :: "gates \<Rightarrow> batch \<Rightarrow> (ticker \<times> pyval) list option \<Rightarrow> gate_out" where
  "pipe_g3 g td sm = gate3_run g (select_data td (fst (pipe_g2b g td sm)))"

definition pipe_g4 :: "gates \<Rightarrow> batch \<Rightarrow> (ticker \<times> pyval) list option \<Rightarrow> gate_out" where
  "pipe_g4 g td sm = gate4_run g (select_data td (fst (pipe_g3 g td sm)))"

definition pipe_trail4 :: "gates \<Rightarrow> batch \<Rightarrow> (ticker \<times> pyval) list option \<Rightarrow> rationale" where
  "pipe_trail4 g td sm =
     log_gate_results
       (log_gate_results
          (log_gate_results
             (log_gate_results [] ''Gate1_Spread'' (snd (pipe_g1 g td sm)))
             ''Gate2_Fundamentals'' (snd (pipe_g2 g td sm)))
          ''Gate2B_Institutional'' (snd (pipe_g2b g td sm)))
       ''Gate3_Technicals'' (snd (pipe_g3 g td sm))"

text \<open>The Gate 2B survivors of a run that gets as far as Gate 3, none otherwise.\<close>

definition pipe_survivors_g2b :: "gates \<Rightarrow> batch \<Rightarrow> (ticker \<times> pyval) list option
    \<Rightarrow> ticker list" where
  "pipe_survivors_g2b g td sm =
     (if fst (pipe_g1 g td sm) = [] \<or> fst (pipe_g2 g td sm) = [] then []
      else fst (pipe_g2b g td sm))"

text \<open>The reason Gate 3 gave for a ticker, as the watchlist loop reads it.\<close>

definition pipe_g3_reason :: "gates \<Rightarrow> batch \<Rightarrow> (ticker \<times> pyval) list option
    \<Rightarrow> ticker \<Rightarrow> pyval" where
  "pipe_g3_reason g td sm t =
     dict_get (dict_get (snd (pipe_g3 g td sm)) t []) ''reason'' (PStr [])"

text \<open>The tickers the watchlist loop selects.\<close>

definition watchlisted :: "rationale \<Rightarrow> ticker list \<Rightarrow> ticker \<Rightarrow> bool" where
  "watchlisted r3 passed_g3 t \<longleftrightarrow>
     t \<notin> set passed_g3 \<and>
     is_sniper_fail (dict_get (dict_get r3 t []) ''reason'' (PStr [])) = Inr True"

section \<open>The pipeline as the specification describes it\<close>

text \<open>
  The specification's reading of the pipeline: an ordered list of named stages, each a
  function from the survivors so far to its own survivors and results, run by a fold
  that merges the results into the trail and stops with no candidates as soon as a stage
  leaves no survivor.
\<close>

type_synonym stage = "string \<times> (ticker list \<Rightarrow> gate_out)"

fun run_stages :: "stage list \<Rightarrow> ticker list \<Rightarrow> rationale \<Rightarrow> ticker list \<times> rationale" where
  "run_stages [] survivors trail = (survivors, trail)"
| "run_stages (st # rest) survivors trail =
     (let (passed, results) = snd st survivors;
          trail' = log_gate_results trail (fst st) results
      in if passed = [] then ([], trail') else run_stages rest passed trail')"

definition pipeline_stages :: "gates \<Rightarrow> batch \<Rightarrow> (ticker \<times> pyval) list option \<Rightarrow> stage list" where
  "pipeline_stages g td sm =
     [(''Gate1_Spread'', \<lambda>survivors. gate1_run g td sm),
      (''Gate2_Fundamentals'', \<lambda>survivors. gate2_run g survivors),
      (''Gate2B_Institutional'',
         \<lambda>survivors. gate2b_run g survivors (build_market_cap_map sm survivors)),
      (''Gate3_Technicals'', \<lambda>survivors. gate3_run g (select_data td survivors)),
      (''Gate4_Execution'', \<lambda>survivors. gate4_run g (select_data td survivors))]"

text \<open>One entry of the trail, and two trails that agree on every gate entry.\<close>

definition trail_get :: "rationale \<Rightarrow> ticker \<Rightarrow> string \<Rightarrow> pyval option" where
  "trail_get trail t k = (case map_of trail t of None \<Rightarrow> None | Some inner \<Rightarrow> map_of inner k)"

definition same_gate_entries :: "rationale \<Rightarrow> rationale \<Rightarrow> bool" where
  "same_gate_entries a b \<longleftrightarrow>
     fst ` set a = fst ` set b \<and>
     (\<forall>t k. k \<noteq> ''status'' \<longrightarrow> trail_get a t k = trail_get b t k)"

text \<open>
  Modelled from the spec: what the specification says of every gate, whose sources
  (\<open>gates/*.py\<close>) are not at hand: a gate only narrows, so its survivors are among the
  tickers it was given.
\<close>

definition gates_narrow :: "gates \<Rightarrow> bool" where
  "gates_narrow g \<longleftrightarrow>
     (\<forall>td sm. set (fst (gate1_run g td sm)) \<subseteq> fst ` set td) \<and>
     (\<forall>s. set (fst (gate2_run g s)) \<subseteq> set s) \<and>
     (\<forall>s caps. set (fst (gate2b_run g s caps)) \<subseteq> set s) \<and>
     (\<forall>td. set (fst (gate3_run g td)) \<subseteq> fst ` set td) \<and>
     (\<forall>td. set (fst (gate4_run g td)) \<subseteq> fst ` set td)"

text \<open>
  Modelled from the spec: a Gate 3 result carries its reason as a string (the
  specification's \<open>reason: human-readable string\<close>), when it carries one.
\<close>

definition gate3_reasons_text :: "gates \<Rightarrow> bool" where
  "gate3_reasons_text g \<longleftrightarrow>
     (\<forall>td t d v. map_of (snd (gate3_run g td)) t = Some d \<longrightarrow> map_of d ''reason'' = Some v
        \<longrightarrow> (\<exists>s. v = PStr s))"

lemma post_process_results:
  "fst (post_process body ts rs lg) = rs @ List.map_filter (succeeded body) ts"
  by (induction ts arbitrary: rs lg)
     (simp_all add: List.map_filter_simps succeeded_def split: sum.splits)

lemma post_process_logged:
  "snd (post_process body ts rs lg) = lg @ List.map_filter (failed body) ts"
  by (induction ts arbitrary: rs lg)
     (simp_all add: List.map_filter_simps failed_def split: sum.splits)

lemma post_process_eq:
  "post_process body ts [] [] =
     (List.map_filter (succeeded body) ts, List.map_filter (failed body) ts)"
  using post_process_results [of body ts "[]" "[]"] post_process_logged [of body ts "[]" "[]"]
  by (simp add: prod_eq_iff)

lemma run_scan_unfold:
  "run_scan g ev u0 td ts =
     (if scan_survivors_g2b g u0 td ts = []
      then Inr \<lparr>returned = [], snapshot = None, logged_errors = []\<rparr>
      else case dict_comp td (scan_survivors_g2b g u0 td ts) [] of
             Inl e \<Rightarrow> Inl e
           | Inr d \<Rightarrow>
               Inr \<lparr>returned = List.map_filter (succeeded (scan_body g ev u0 td ts))
                                  (scan_survivors_g2b g u0 td ts),
                    snapshot = Some (List.map_filter (succeeded (scan_body g ev u0 td ts))
                                       (scan_survivors_g2b g u0 td ts),
                                     scan_rationale g u0 td ts),
                    logged_errors = List.map_filter (failed (scan_body g ev u0 td ts))
                                       (scan_survivors_g2b g u0 td ts)\<rparr>)"
  by (simp add: run_scan_def scan_survivors_g2b_def scan_g1_def scan_g2_def scan_g2b_def
        scan_g3_def scan_g3_rationale_def scan_body_def scan_rationale_def select_data_def
        post_process_eq Let_def split: prod.splits sum.splits)

lemma in_succeeded:
  "c \<in> set (List.map_filter (succeeded body) xs) \<longleftrightarrow> (\<exists>t \<in> set xs. body t = Inr c)"
  by (induction xs) (auto simp: List.map_filter_simps succeeded_def split: sum.splits)

lemma in_failed:
  "(t, e) \<in> set (List.map_filter (failed body) xs) \<longleftrightarrow> (t \<in> set xs \<and> body t = Inl e)"
  by (induction xs) (auto simp: List.map_filter_simps failed_def split: sum.splits)

lemma returned_candidate:
  assumes "run_scan g ev u0 td ts = Inr out" and "c \<in> set (returned out)"
  shows "\<exists>t \<in> set (scan_survivors_g2b g u0 td ts). scan_body g ev u0 td ts t = Inr c"
proof (cases "scan_survivors_g2b g u0 td ts = []")
  case True
  with assms show ?thesis by (auto simp: run_scan_unfold)
next
  case False
  with assms(1) have "returned out = List.map_filter (succeeded (scan_body g ev u0 td ts))
                                  (scan_survivors_g2b g u0 td ts)"
    by (auto simp: run_scan_unfold split: sum.splits)
  with assms(2) show ?thesis by (simp add: in_succeeded)
qed

lemma str_contains_sublist: "str_contains needle hay = sublist needle hay"
  by (induction hay) (simp_all add: sublist_Cons_right)

lemma process_ticker_Inr:
  assumes "process_ticker ev universe td g3r finds t = Inr c"
  shows "\<exists>df atrs label.
           map_of td t = Some df \<and> Close df \<noteq> []
         \<and> average_true_range ev (High df) (Low df) (Close df) 14 = Inr atrs \<and> atrs \<noteq> []
         \<and> holding_period (dict_get (dict_get g3r t []) ''pattern'' (PStr [])) = Inr label
         \<and> c_ticker c = t
         \<and> c_status c = (if t \<in> set finds then ''BUY'' else ''COILING_SPRING'')
         \<and> c_pattern c = dict_get (dict_get g3r t []) ''pattern'' (PStr [])
         \<and> c_trade c = \<lparr>tm_entry = py_round2 (last (Close df)),
               tm_sl = py_round2 (last (Close df) - 2 * last atrs),
               tm_target = py_round2 (last (Close df)
                              + 2 * (last (Close df) - (last (Close df) - 2 * last atrs))),
               tm_period = label, tm_risk_reward = ''1:2''\<rparr>"
  using assms
  by (auto simp: process_ticker_def dict_item_def iloc_last_def Let_def
           split: option.splits sum.splits if_splits)

lemma process_ticker_succeeds:
  assumes "map_of td t = Some df" and "Close df \<noteq> []"
    and "average_true_range ev (High df) (Low df) (Close df) 14 = Inr atrs" and "atrs \<noteq> []"
    and "holding_period (dict_get (dict_get g3r t []) ''pattern'' (PStr [])) = Inr label"
    and "charts_ok ev t df
           \<lparr>tm_entry = py_round2 (last (Close df)),
            tm_sl = py_round2 (last (Close df) - 2 * last atrs),
            tm_target = py_round2 (last (Close df)
                              + 2 * (last (Close df) - (last (Close df) - 2 * last atrs))),
            tm_period = label, tm_risk_reward = ''1:2''\<rparr>
           (dict_get (dict_get g3r t []) ''pattern'' (PStr []))"
  shows "\<exists>c. process_ticker ev universe td g3r finds t = Inr c"
  using assms
  by (auto simp: process_ticker_def dict_item_def iloc_last_def Let_def charts_ok_def
           split: option.splits sum.splits if_splits)

lemma holding_period_str:
  "holding_period (PStr s) =
     Inr (if sublist ''VCP'' s then ''Swing (2-6 Weeks)'' else ''Positional (1-3 Months)'')"
  by (cases s) (simp_all add: holding_period_def str_contains_sublist [symmetric])

lemma holding_period_none: "holding_period PNone = Inr ''Positional (1-3 Months)''"
  by (simp add: holding_period_def)

text \<open>
  Claim C9. Every candidate of a scan carries the label \<open>Swing (2-6 Weeks)\<close> exactly when
  its pattern string contains \<open>VCP\<close> and \<open>Positional (1-3 Months)\<close> otherwise, also when
  the pattern is \<open>None\<close> or absent from the Gate 3 result (the default is the empty
  string).
\<close>

theorem holding_period_label_from_pattern:
  assumes "run_scan g ev u0 td ts = Inr out" and "c \<in> set (returned out)"
  shows "(\<forall>s. c_pattern c = PStr s \<longrightarrow>
            tm_period (c_trade c) =
              (if sublist ''VCP'' s then ''Swing (2-6 Weeks)'' else ''Positional (1-3 Months)''))
       \<and> (c_pattern c = PNone \<longrightarrow> tm_period (c_trade c) = ''Positional (1-3 Months)'')
       \<and> c_pattern c =
           dict_get (dict_get (scan_g3_rationale g u0 td ts) (c_ticker c) []) ''pattern'' (PStr [])"
proof -
  from returned_candidate [OF assms] obtain t
    where body: "scan_body g ev u0 td ts t = Inr c" by blast
  from process_ticker_Inr [OF body [unfolded scan_body_def]] obtain label
    where lab: "holding_period (c_pattern c) = Inr label"
      and tk: "c_ticker c = t"
      and pat: "c_pattern c = dict_get (dict_get (scan_g3_rationale g u0 td ts) t []) ''pattern'' (PStr [])"
      and per: "tm_period (c_trade c) = label"
    by auto
  show ?thesis
    using lab tk pat per by (auto simp: holding_period_str holding_period_none)
qed

theorem holding_period_label_witness:
  "example_scan = Inr (projr example_scan)
   \<and> hd (returned (projr example_scan)) \<in> set (returned (projr example_scan))
   \<and> c_pattern (hd (returned (projr example_scan))) = PStr ''VCP Tight''
   \<and> sublist ''VCP'' ''VCP Tight''
   \<and> tm_period (c_trade (hd (returned (projr example_scan)))) = ''Swing (2-6 Weeks)''"
proof -
  have run: "run_scan example_gates example_env example_universe example_batch [(''A'', ''IT'')]
               = Inr (projr example_scan)"
    unfolding example_scan_def by code_simp
  have mem: "hd (returned (projr example_scan)) \<in> set (returned (projr example_scan))"
    by code_simp
  have pat: "c_pattern (hd (returned (projr example_scan))) = PStr ''VCP Tight''"
    by code_simp
  have sub: "sublist ''VCP'' ''VCP Tight''"
    unfolding str_contains_sublist [symmetric] by simp
  from holding_period_label_from_pattern [OF run mem] pat sub
  have "tm_period (c_trade (hd (returned (projr example_scan)))) = ''Swing (2-6 Weeks)''"
    by simp
  with run mem pat sub show ?thesis by (simp add: example_scan_def)
qed

lemma py_round2_near: "\<bar>py_round2 x - x\<bar> \<le> 1 / 200"
proof -
  define f :: real where "f = of_int \<lfloor>x * 100\<rfloor>"
  define r where "r = py_round2 x * 100"
  have lo: "f \<le> x * 100" and hi: "x * 100 < f + 1"
    unfolding f_def by linarith+
  have r: "r = f \<or> r = f + 1"
    unfolding r_def f_def py_round2_def Let_def by simp
  have "\<bar>r - x * 100\<bar> \<le> 1 / 2"
  proof (cases "x * 100 - f < 1 / 2")
    case True
    then have "r = f" unfolding r_def f_def py_round2_def Let_def by simp
    with True lo show ?thesis by simp
  next
    case False
    show ?thesis
    proof (cases "1 / 2 < x * 100 - f")
      case True
      with False have "r = f + 1" unfolding r_def f_def py_round2_def Let_def by simp
      with True hi show ?thesis by simp
    next
      case eq: False
      with False have "x * 100 - f = 1 / 2" by simp
      with r show ?thesis by auto
    qed
  qed
  then show ?thesis unfolding r_def by (simp add: field_simps abs_if split: if_splits)
qed

lemma py_round2_hundredths: "py_round2 x * 100 \<in> \<int>"
  by (simp add: py_round2_def Let_def)

lemma py_round2_fixed: "py_round2 (of_int k / 100) = of_int k / 100"
  by (simp add: py_round2_def Let_def)

text \<open>
  Claim C10. Every candidate a scan emits carries the constant ratio string \<open>1:2\<close>; its
  entry, stop and target are the close, the close minus twice the last ATR(14) and the
  target built from them, each rounded to two decimals (a whole number of hundredths); and
  nothing rejects a stop that is not below the entry: a Gate 2B survivor whose ATR is zero
  and whose processing raises nothing is emitted with stop = entry = target.
\<close>

theorem trade_metadata_constant_ratio_rounded_unchecked:
  assumes "run_scan g ev u0 td ts = Inr out"
  shows "(\<forall>c \<in> set (returned out). \<exists>df atrs.
            map_of td (c_ticker c) = Some df \<and> Close df \<noteq> [] \<and>
            average_true_range ev (High df) (Low df) (Close df) 14 = Inr atrs \<and> atrs \<noteq> [] \<and>
            tm_risk_reward (c_trade c) = ''1:2'' \<and>
            tm_entry (c_trade c) = py_round2 (last (Close df)) \<and>
            tm_sl (c_trade c) = py_round2 (last (Close df) - 2 * last atrs) \<and>
            tm_target (c_trade c) =
              py_round2 (last (Close df) + 2 * (last (Close df) - (last (Close df) - 2 * last atrs))) \<and>
            tm_entry (c_trade c) * 100 \<in> \<int> \<and> tm_sl (c_trade c) * 100 \<in> \<int> \<and>
            tm_target (c_trade c) * 100 \<in> \<int> \<and>
            (last atrs = 0 \<longrightarrow>
               tm_sl (c_trade c) = tm_entry (c_trade c) \<and>
               tm_target (c_trade c) = tm_entry (c_trade c)))
       \<and> (\<forall>t \<in> set (scan_survivors_g2b g u0 td ts). \<forall>df atrs label.
            map_of td t = Some df \<and> Close df \<noteq> [] \<and>
            average_true_range ev (High df) (Low df) (Close df) 14 = Inr atrs \<and> atrs \<noteq> [] \<and>
            last atrs = 0 \<and>
            holding_period (dict_get (dict_get (scan_g3_rationale g u0 td ts) t [])
                              ''pattern'' (PStr [])) = Inr label \<and>
            charts_ok ev t df
              \<lparr>tm_entry = py_round2 (last (Close df)), tm_sl = py_round2 (last (Close df)),
               tm_target = py_round2 (last (Close df)), tm_period = label,
               tm_risk_reward = ''1:2''\<rparr>
              (dict_get (dict_get (scan_g3_rationale g u0 td ts) t []) ''pattern'' (PStr []))
            \<longrightarrow> (\<exists>c \<in> set (returned out). c_ticker c = t \<and>
                   tm_sl (c_trade c) = tm_entry (c_trade c) \<and>
                   tm_target (c_trade c) = tm_entry (c_trade c)))"
proof (intro conjI ballI allI impI)
  fix c assume "c \<in> set (returned out)"
  from returned_candidate [OF assms this] obtain t
    where body: "scan_body g ev u0 td ts t = Inr c" by blast
  from process_ticker_Inr [OF body [unfolded scan_body_def]]
  show "\<exists>df atrs.
            map_of td (c_ticker c) = Some df \<and> Close df \<noteq> [] \<and>
            average_true_range ev (High df) (Low df) (Close df) 14 = Inr atrs \<and> atrs \<noteq> [] \<and>
            tm_risk_reward (c_trade c) = ''1:2'' \<and>
            tm_entry (c_trade c) = py_round2 (last (Close df)) \<and>
            tm_sl (c_trade c) = py_round2 (last (Close df) - 2 * last atrs) \<and>
            tm_target (c_trade c) =
              py_round2 (last (Close df) + 2 * (last (Close df) - (last (Close df) - 2 * last atrs))) \<and>
            tm_entry (c_trade c) * 100 \<in> \<int> \<and> tm_sl (c_trade c) * 100 \<in> \<int> \<and>
            tm_target (c_trade c) * 100 \<in> \<int> \<and>
            (last atrs = 0 \<longrightarrow>
               tm_sl (c_trade c) = tm_entry (c_trade c) \<and>
               tm_target (c_trade c) = tm_entry (c_trade c))"
    by (fastforce simp: py_round2_hundredths)
next
  fix t df atrs label
  assume t: "t \<in> set (scan_survivors_g2b g u0 td ts)"
    and h: "map_of td t = Some df \<and> Close df \<noteq> [] \<and>
            average_true_range ev (High df) (Low df) (Close df) 14 = Inr atrs \<and> atrs \<noteq> [] \<and>
            last atrs = 0 \<and>
            holding_period (dict_get (dict_get (scan_g3_rationale g u0 td ts) t [])
                              ''pattern'' (PStr [])) = Inr label \<and>
            charts_ok ev t df
              \<lparr>tm_entry = py_round2 (last (Close df)), tm_sl = py_round2 (last (Close df)),
               tm_target = py_round2 (last (Close df)), tm_period = label,
               tm_risk_reward = ''1:2''\<rparr>
              (dict_get (dict_get (scan_g3_rationale g u0 td ts) t []) ''pattern'' (PStr []))"
  from h have "\<exists>c. scan_body g ev u0 td ts t = Inr c"
    unfolding scan_body_def
    by (intro process_ticker_succeeds [where df = df and atrs = atrs and label = label]) simp_all
  then obtain c where body: "scan_body g ev u0 td ts t = Inr c" by blast
  from t have ne: "scan_survivors_g2b g u0 td ts \<noteq> []" by auto
  from assms ne have ret: "returned out = List.map_filter (succeeded (scan_body g ev u0 td ts))
                                  (scan_survivors_g2b g u0 td ts)"
    by (auto simp: run_scan_unfold split: sum.splits)
  from t body have mem: "c \<in> set (returned out)"
    unfolding ret in_succeeded by blast
  from process_ticker_Inr [OF body [unfolded scan_body_def]] h
  have "c_ticker c = t \<and> tm_sl (c_trade c) = tm_entry (c_trade c) \<and>
        tm_target (c_trade c) = tm_entry (c_trade c)"
    by auto
  with mem show "\<exists>c \<in> set (returned out). c_ticker c = t \<and>
                   tm_sl (c_trade c) = tm_entry (c_trade c) \<and>
                   tm_target (c_trade c) = tm_entry (c_trade c)"
    by blast
qed

theorem trade_metadata_zero_atr_witness:
  "example_scan = Inr (projr example_scan)
   \<and> returned (projr example_scan) ! 1 \<in> set (returned (projr example_scan))
   \<and> c_ticker (returned (projr example_scan) ! 1) = ''B''
   \<and> average_true_range example_env [50] [50] [50] 14 = Inr [0]
   \<and> tm_risk_reward (c_trade (returned (projr example_scan) ! 1)) = ''1:2''
   \<and> tm_entry (c_trade (returned (projr example_scan) ! 1)) = 50
   \<and> tm_sl (c_trade (returned (projr example_scan) ! 1)) = 50
   \<and> tm_target (c_trade (returned (projr example_scan) ! 1)) = 50"
proof -
  let ?c = "returned (projr example_scan) ! 1"
  have run0: "example_scan = Inr (projr example_scan)"
    by code_simp
  have run: "run_scan example_gates example_env example_universe example_batch [(''A'', ''IT'')]
               = Inr (projr example_scan)"
    using run0 by (simp only: example_scan_def [symmetric])
  have mem: "?c \<in> set (returned (projr example_scan))"
    by code_simp
  have tk: "c_ticker ?c = ''B''"
    by code_simp
  have atr: "average_true_range example_env [50] [50] [50] 14 = Inr [0]"
    by (simp add: example_env_def)
  have "\<forall>c \<in> set (returned (projr example_scan)). \<exists>df atrs.
            map_of example_batch (c_ticker c) = Some df \<and> Close df \<noteq> [] \<and>
            average_true_range example_env (High df) (Low df) (Close df) 14 = Inr atrs \<and> atrs \<noteq> [] \<and>
            tm_risk_reward (c_trade c) = ''1:2'' \<and>
            tm_entry (c_trade c) = py_round2 (last (Close df)) \<and>
            tm_sl (c_trade c) = py_round2 (last (Close df) - 2 * last atrs) \<and>
            tm_target (c_trade c) =
              py_round2 (last (Close df) + 2 * (last (Close df) - (last (Close df) - 2 * last atrs))) \<and>
            tm_entry (c_trade c) * 100 \<in> \<int> \<and> tm_sl (c_trade c) * 100 \<in> \<int> \<and>
            tm_target (c_trade c) * 100 \<in> \<int> \<and>
            (last atrs = 0 \<longrightarrow>
               tm_sl (c_trade c) = tm_entry (c_trade c) \<and>
               tm_target (c_trade c) = tm_entry (c_trade c))"
    by (rule conjunct1 [OF trade_metadata_constant_ratio_rounded_unchecked [OF run]])
  from bspec [OF this mem]
  obtain df atrs where
        df: "map_of example_batch (c_ticker ?c) = Some df"
    and a: "average_true_range example_env (High df) (Low df) (Close df) 14 = Inr atrs"
    and rr: "tm_risk_reward (c_trade ?c) = ''1:2''"
    and en: "tm_entry (c_trade ?c) = py_round2 (last (Close df))"
    and z: "last atrs = 0 \<longrightarrow> tm_sl (c_trade ?c) = tm_entry (c_trade ?c) \<and>
               tm_target (c_trade ?c) = tm_entry (c_trade ?c)"
    by (elim exE conjE)
  from df have dfv: "df = one_bar 50"
    unfolding tk by (simp add: example_batch_def)
  from a atr have av: "atrs = [0]"
    by (simp add: dfv one_bar_def)
  from z have sl: "tm_sl (c_trade ?c) = tm_entry (c_trade ?c)"
    and tg: "tm_target (c_trade ?c) = tm_entry (c_trade ?c)"
    unfolding av by simp_all
  have "py_round2 50 = 50"
    using py_round2_fixed [of 5000] by simp
  then have e50: "tm_entry (c_trade ?c) = 50"
    unfolding en dfv by (simp add: one_bar_def)
  show ?thesis
    using run0 mem tk atr rr e50 sl [unfolded e50] tg [unfolded e50] by (intro conjI)
qed

text \<open>
  Claim C6 as stated fails on the emitted metadata: ticker \<open>A\<close> closes at 100.004 with an
  ATR of 0.0125, so the scan emits entry 100.00, stop 99.98 and target 100.05, and
  100.05 differs from 100.00 + 2 (100.00 - 99.98); the emitted reward to risk is 2.5.
\<close>

theorem emitted_target_not_exact_counterexample:
  "tm_entry (c_trade (hd (returned_of example_scan))) = 100
   \<and> tm_sl (c_trade (hd (returned_of example_scan))) = 4999 / 50
   \<and> tm_target (c_trade (hd (returned_of example_scan))) = 2001 / 20
   \<and> tm_sl (c_trade (hd (returned_of example_scan)))
       < tm_entry (c_trade (hd (returned_of example_scan)))
   \<and> tm_target (c_trade (hd (returned_of example_scan)))
       \<noteq> tm_entry (c_trade (hd (returned_of example_scan)))
         + 2 * (tm_entry (c_trade (hd (returned_of example_scan)))
                - tm_sl (c_trade (hd (returned_of example_scan))))
   \<and> (tm_target (c_trade (hd (returned_of example_scan)))
        - tm_entry (c_trade (hd (returned_of example_scan))))
      / (tm_entry (c_trade (hd (returned_of example_scan)))
        - tm_sl (c_trade (hd (returned_of example_scan)))) = 5 / 2"
proof -
  have e: "tm_entry (c_trade (hd (returned_of example_scan))) = 100"
    by code_simp
  have s: "tm_sl (c_trade (hd (returned_of example_scan))) = 4999 / 50"
    by code_simp
  have t: "tm_target (c_trade (hd (returned_of example_scan))) = 2001 / 20"
    by code_simp
  show ?thesis unfolding e s t by simp
qed

lemma rounded_levels_close:
  fixes e s t :: real
  assumes "t = e + 2 * (e - s)"
  shows "\<bar>py_round2 t - (py_round2 e + 2 * (py_round2 e - py_round2 s))\<bar> \<le> 3 / 100"
proof -
  note n = py_round2_near [of t, unfolded abs_le_iff] py_round2_near [of e, unfolded abs_le_iff]
    py_round2_near [of s, unfolded abs_le_iff]
  show ?thesis
    unfolding abs_le_iff
    using conjunct1 [OF n(1)] conjunct2 [OF n(1)] conjunct1 [OF n(2)] conjunct2 [OF n(2)]
      conjunct1 [OF n(3)] conjunct2 [OF n(3)] assms
    by (auto simp del: py_round2_def)
qed

text \<open>
  Claim C6, amended. For every candidate a scan emits, the unrounded levels satisfy
  stop = close - 2 ATR(14) and target = entry + 2 (entry - stop), so that reward over
  risk is exactly 2 when the stop is below the entry; the metadata holds each level
  rounded to two decimals, and there the relation holds up to 0.03.
\<close>

theorem trade_levels_exact_before_rounding:
  assumes "run_scan g ev u0 td ts = Inr out"
  shows "\<forall>c \<in> set (returned out). \<exists>close atr stop tgt.
           (\<exists>df atrs. map_of td (c_ticker c) = Some df \<and> Close df \<noteq> [] \<and>
               close = last (Close df) \<and>
               average_true_range ev (High df) (Low df) (Close df) 14 = Inr atrs \<and>
               atrs \<noteq> [] \<and> atr = last atrs) \<and>
           stop = close - 2 * atr \<and> tgt = close + 2 * (close - stop) \<and>
           (stop < close \<longrightarrow> (tgt - close) / (close - stop) = 2) \<and>
           tm_entry (c_trade c) = py_round2 close \<and>
           tm_sl (c_trade c) = py_round2 stop \<and>
           tm_target (c_trade c) = py_round2 tgt \<and>
           \<bar>tm_target (c_trade c)
              - (tm_entry (c_trade c) + 2 * (tm_entry (c_trade c) - tm_sl (c_trade c)))\<bar>
             \<le> 3 / 100"
proof
  fix c assume "c \<in> set (returned out)"
  from returned_candidate [OF assms this] obtain t
    where body: "scan_body g ev u0 td ts t = Inr c" by blast
  from process_ticker_Inr [OF body [unfolded scan_body_def]]
  obtain df atrs where
        df: "map_of td (c_ticker c) = Some df" "Close df \<noteq> []"
    and a: "average_true_range ev (High df) (Low df) (Close df) 14 = Inr atrs" "atrs \<noteq> []"
    and en: "tm_entry (c_trade c) = py_round2 (last (Close df))"
    and sl: "tm_sl (c_trade c) = py_round2 (last (Close df) - 2 * last atrs)"
    and tg: "tm_target (c_trade c) =
               py_round2 (last (Close df) + 2 * (last (Close df) - (last (Close df) - 2 * last atrs)))"
    by auto
  define close where "close = last (Close df)"
  define atr where "atr = last atrs"
  define stop where "stop = close - 2 * atr"
  define tgt where "tgt = close + 2 * (close - stop)"
  have ratio: "stop < close \<longrightarrow> (tgt - close) / (close - stop) = 2"
  proof
    assume "stop < close"
    then have ne: "close - stop \<noteq> 0" by simp
    have eq: "tgt - close = 2 * (close - stop)" by (simp add: tgt_def)
    show "(tgt - close) / (close - stop) = 2"
      unfolding eq using ne by (rule nonzero_mult_div_cancel_right)
  qed
  have near: "\<bar>py_round2 tgt - (py_round2 close + 2 * (py_round2 close - py_round2 stop))\<bar>
                \<le> 3 / 100"
    by (rule rounded_levels_close) (simp add: tgt_def)
  have e': "tm_entry (c_trade c) = py_round2 close"
    and s': "tm_sl (c_trade c) = py_round2 stop"
    and t': "tm_target (c_trade c) = py_round2 tgt"
    using en sl tg by (simp_all add: close_def atr_def stop_def tgt_def)
  have src: "\<exists>df atrs. map_of td (c_ticker c) = Some df \<and> Close df \<noteq> [] \<and>
               close = last (Close df) \<and>
               average_true_range ev (High df) (Low df) (Close df) 14 = Inr atrs \<and>
               atrs \<noteq> [] \<and> atr = last atrs"
    using df a close_def atr_def by blast
  show "\<exists>close atr stop tgt.
           (\<exists>df atrs. map_of td (c_ticker c) = Some df \<and> Close df \<noteq> [] \<and>
               close = last (Close df) \<and>
               average_true_range ev (High df) (Low df) (Close df) 14 = Inr atrs \<and>
               atrs \<noteq> [] \<and> atr = last atrs) \<and>
           stop = close - 2 * atr \<and> tgt = close + 2 * (close - stop) \<and>
           (stop < close \<longrightarrow> (tgt - close) / (close - stop) = 2) \<and>
           tm_entry (c_trade c) = py_round2 close \<and>
           tm_sl (c_trade c) = py_round2 stop \<and>
           tm_target (c_trade c) = py_round2 tgt \<and>
           \<bar>tm_target (c_trade c)
              - (tm_entry (c_trade c) + 2 * (tm_entry (c_trade c) - tm_sl (c_trade c)))\<bar>
             \<le> 3 / 100"
    apply (rule exI [of _ close], rule exI [of _ atr], rule exI [of _ stop], rule exI [of _ tgt])
    using src ratio near stop_def tgt_def unfolding e' s' t' by (intro conjI) simp_all
qed

theorem trade_levels_witness:
  "example_scan = Inr (projr example_scan)
   \<and> hd (returned (projr example_scan)) \<in> set (returned (projr example_scan))
   \<and> \<bar>tm_target (c_trade (hd (returned (projr example_scan))))
        - (tm_entry (c_trade (hd (returned (projr example_scan))))
           + 2 * (tm_entry (c_trade (hd (returned (projr example_scan))))
                  - tm_sl (c_trade (hd (returned (projr example_scan))))))\<bar> \<le> 3 / 100
   \<and> tm_entry (c_trade (hd (returned (projr example_scan)))) = py_round2 (100004 / 1000)
   \<and> tm_sl (c_trade (hd (returned (projr example_scan)))) = py_round2 (99979 / 1000)
   \<and> tm_target (c_trade (hd (returned (projr example_scan)))) = py_round2 (100054 / 1000)
   \<and> ((100054 / 1000 - 100004 / 1000) / (100004 / 1000 - 99979 / 1000) :: real) = 2"
proof -
  let ?c = "hd (returned (projr example_scan))"
  have run0: "example_scan = Inr (projr example_scan)"
    by code_simp
  have run: "run_scan example_gates example_env example_universe example_batch [(''A'', ''IT'')]
               = Inr (projr example_scan)"
    using run0 by (simp only: example_scan_def [symmetric])
  have mem: "?c \<in> set (returned (projr example_scan))"
    by code_simp
  have tk: "c_ticker ?c = ''A''"
    by code_simp
  have atr: "average_true_range example_env [100004 / 1000] [100004 / 1000] [100004 / 1000] 14
               = Inr [1 / 80]"
    by (simp add: example_env_def)
  from bspec [OF trade_levels_exact_before_rounding [OF run] mem]
  obtain close atrv stop tgt df atrs where
        df: "map_of example_batch (c_ticker ?c) = Some df"
    and cl: "close = last (Close df)"
    and a: "average_true_range example_env (High df) (Low df) (Close df) 14 = Inr atrs"
    and al: "atrv = last atrs"
    and st: "stop = close - 2 * atrv" and tg: "tgt = close + 2 * (close - stop)"
    and en: "tm_entry (c_trade ?c) = py_round2 close"
    and sl: "tm_sl (c_trade ?c) = py_round2 stop"
    and tt: "tm_target (c_trade ?c) = py_round2 tgt"
    and near: "\<bar>tm_target (c_trade ?c)
        - (tm_entry (c_trade ?c) + 2 * (tm_entry (c_trade ?c) - tm_sl (c_trade ?c)))\<bar> \<le> 3 / 100"
    by (elim exE conjE)
  from df have dfv: "df = one_bar (100004 / 1000)"
    unfolding tk by (simp add: example_batch_def)
  have clv: "close = 100004 / 1000"
    unfolding cl dfv by (simp add: one_bar_def)
  from a atr have "atrs = [1 / 80]"
    by (simp add: dfv one_bar_def)
  then have av: "atrv = 1 / 80"
    unfolding al by simp
  have sv: "stop = 99979 / 1000"
    unfolding st clv av by simp
  have tv: "tgt = 100054 / 1000"
    unfolding tg clv sv by simp
  have ratio: "((100054 / 1000 - 100004 / 1000) / (100004 / 1000 - 99979 / 1000) :: real) = 2"
    by simp
  show ?thesis
    using run0 mem near en [unfolded clv] sl [unfolded sv] tt [unfolded tv] ratio
    by (intro conjI)
qed

text \<open>
  Claim C7 as stated fails: the ATR library raises on ticker \<open>E\<close>, which passed Gate 3;
  the error is logged and \<open>E\<close> is dropped from the results, but the trail still holds
  its passing Gate 3 record and no failed one.
\<close>

theorem compute_error_only_logged_counterexample:
  "logged_of example_scan = [(''E'', ExternalError ''ZeroDivisionError'')]
   \<and> map c_ticker (returned_of example_scan) = [''A'', ''B'', ''C'', ''F'']
   \<and> map_of (rationale_of example_scan) ''E''
       = Some [(''passed'', PBool True), (''reason'', PStr ''Trend OK'')]"
  by code_simp

lemma process_ticker_ticker:
  "process_ticker ev universe td g3r finds t = Inr c \<Longrightarrow> c_ticker c = t"
  by (drule process_ticker_Inr) auto

lemma run_scan_env_independent:
  assumes "run_scan g ev u0 td ts = Inr out"
  shows "\<exists>out'. run_scan g ev' u0 td ts = Inr out'
               \<and> map_option snd (snapshot out') = map_option snd (snapshot out)"
  using assms by (auto simp: run_scan_unfold split: if_splits sum.splits)

text \<open>
  Claim C7, amended. An exception in the post-processing of one Gate 2B survivor is
  caught for that ticker alone: the ticker is logged with its error and left out of the
  results, every other survivor is still processed in order, and the rationale saved
  with the snapshot is the same whatever the post-processing does (no failed record is
  added to it).
\<close>

theorem post_processing_error_logged_and_skipped:
  assumes "run_scan g ev u0 td ts = Inr out"
  shows "(\<forall>t \<in> set (scan_survivors_g2b g u0 td ts).
            (\<exists>c. scan_body g ev u0 td ts t = Inr c \<and> c \<in> set (returned out))
          \<or> (\<exists>e. scan_body g ev u0 td ts t = Inl e \<and> (t, e) \<in> set (logged_errors out)
                  \<and> t \<notin> c_ticker ` set (returned out)))
       \<and> returned out = List.map_filter (succeeded (scan_body g ev u0 td ts))
                           (scan_survivors_g2b g u0 td ts)
       \<and> (\<forall>ev'. \<exists>out'. run_scan g ev' u0 td ts = Inr out'
               \<and> map_option snd (snapshot out') = map_option snd (snapshot out))"
proof (intro conjI ballI allI)
  show ret: "returned out = List.map_filter (succeeded (scan_body g ev u0 td ts))
                           (scan_survivors_g2b g u0 td ts)"
    using assms
    by (auto simp: run_scan_unfold List.map_filter_simps split: if_splits sum.splits)
  fix t assume t: "t \<in> set (scan_survivors_g2b g u0 td ts)"
  then have ne: "scan_survivors_g2b g u0 td ts \<noteq> []" by auto
  with assms have lg: "logged_errors out = List.map_filter (failed (scan_body g ev u0 td ts))
                           (scan_survivors_g2b g u0 td ts)"
    by (auto simp: run_scan_unfold split: sum.splits)
  show "(\<exists>c. scan_body g ev u0 td ts t = Inr c \<and> c \<in> set (returned out))
          \<or> (\<exists>e. scan_body g ev u0 td ts t = Inl e \<and> (t, e) \<in> set (logged_errors out)
                  \<and> t \<notin> c_ticker ` set (returned out))"
  proof (cases "scan_body g ev u0 td ts t")
    case (Inr c)
    with t show ?thesis unfolding ret in_succeeded by blast
  next
    case (Inl e)
    have "t \<notin> c_ticker ` set (returned out)"
    proof
      assume "t \<in> c_ticker ` set (returned out)"
      then obtain c where c: "c \<in> set (returned out)" and ct: "c_ticker c = t" by auto
      from c obtain t' where b: "scan_body g ev u0 td ts t' = Inr c"
        unfolding ret in_succeeded by blast
      from process_ticker_ticker [OF b [unfolded scan_body_def]] ct have "t' = t" by simp
      with b Inl show False by simp
    qed
    moreover from t Inl have "(t, e) \<in> set (logged_errors out)"
      unfolding lg in_failed by simp
    ultimately show ?thesis using Inl by blast
  qed
next
  fix ev'
  show "\<exists>out'. run_scan g ev' u0 td ts = Inr out'
               \<and> map_option snd (snapshot out') = map_option snd (snapshot out)"
    by (rule run_scan_env_independent [OF assms])
qed

theorem post_processing_error_witness:
  "example_scan = Inr (projr example_scan)
   \<and> ''E'' \<in> set (scan_survivors_g2b example_gates example_universe example_batch [(''A'', ''IT'')])
   \<and> scan_body example_gates example_env example_universe example_batch [(''A'', ''IT'')] ''E''
        = Inl (ExternalError ''ZeroDivisionError'')
   \<and> (''E'', ExternalError ''ZeroDivisionError'') \<in> set (logged_errors (projr example_scan))
   \<and> ''E'' \<notin> c_ticker ` set (returned (projr example_scan))
   \<and> scan_body example_gates example_env example_universe example_batch [(''A'', ''IT'')] ''F''
        = Inr (returned (projr example_scan) ! 3)"
proof -
  let ?body = "scan_body example_gates example_env example_universe example_batch [(''A'', ''IT'')]"
  have run0: "example_scan = Inr (projr example_scan)"
    by code_simp
  have run: "run_scan example_gates example_env example_universe example_batch [(''A'', ''IT'')]
               = Inr (projr example_scan)"
    using run0 by (simp only: example_scan_def [symmetric])
  have mem: "''E'' \<in> set (scan_survivors_g2b example_gates example_universe example_batch
                              [(''A'', ''IT'')])"
    by code_simp
  have fail: "?body ''E'' = Inl (ExternalError ''ZeroDivisionError'')"
    by code_simp
  have ok: "?body ''F'' = Inr (returned (projr example_scan) ! 3)"
    by code_simp
  from post_processing_error_logged_and_skipped [OF run]
  have "\<forall>t \<in> set (scan_survivors_g2b example_gates example_universe example_batch
                     [(''A'', ''IT'')]).
            (\<exists>c. ?body t = Inr c \<and> c \<in> set (returned (projr example_scan)))
          \<or> (\<exists>e. ?body t = Inl e \<and> (t, e) \<in> set (logged_errors (projr example_scan))
                  \<and> t \<notin> c_ticker ` set (returned (projr example_scan)))"
    by (rule conjunct1)
  from bspec [OF this mem] have
    "(''E'', ExternalError ''ZeroDivisionError'') \<in> set (logged_errors (projr example_scan))
     \<and> ''E'' \<notin> c_ticker ` set (returned (projr example_scan))"
    unfolding fail by simp
  with run0 mem fail ok show ?thesis by (intro conjI) simp_all
qed

text \<open>
  Claim C5 fails in \<open>run_scan\<close>: Gate 1 produced a record for ticker \<open>A\<close>, and the
  rationale saved with the snapshot holds for \<open>A\<close> only the Gate 3 record, keyed by the
  record's fields and not by gate names.
\<close>

theorem snapshot_rationale_keeps_last_gate_only:
  "map_of (snd (scan_g1 example_gates example_universe example_batch [(''A'', ''IT'')])) ''A''
     = Some [(''passed'', PBool True), (''sector'', PStr ''IT'')]
   \<and> map_of (rationale_of example_scan) ''A''
     = Some [(''passed'', PBool True), (''pattern'', PStr ''VCP Tight''),
             (''reason'', PStr ''Trend OK'')]"
  by code_simp









lemma dict_comp_Inr:
  "dict_comp src s acc = Inr d \<Longrightarrow> set s \<subseteq> fst ` set src \<and> fst ` set d = fst ` set acc \<union> set s"
proof (induction s arbitrary: acc)
  case Nil
  then show ?case by simp
next
  case (Cons t ts)
  then obtain v where v: "map_of src t = Some v"
    by (auto split: option.splits)
  with Cons.prems have "dict_comp src ts (AList.update t v acc) = Inr d" by simp
  from Cons.IH [OF this] v show ?case
    by (auto simp: dom_update dest: map_of_SomeD intro: rev_image_eqI)
qed

lemma dict_comp_total:
  "set s \<subseteq> fst ` set src \<Longrightarrow> \<exists>d. dict_comp src s acc = Inr d"
proof (induction s arbitrary: acc)
  case Nil
  then show ?case by simp
next
  case (Cons t ts)
  then have "t \<in> fst ` set src" by simp
  then obtain v where "map_of src t = Some v"
    by (metis map_of_eq_None_iff not_Some_eq)
  with Cons show ?case by simp
qed

lemma select_data_keys: "fst ` set (select_data td s) \<subseteq> set s"
proof (cases "dict_comp td s []")
  case (Inl e)
  then show ?thesis by (simp add: select_data_def)
next
  case (Inr d)
  from dict_comp_Inr [OF this] Inr show ?thesis by (simp add: select_data_def)
qed

lemma select_data_Inr: "dict_comp td s [] = Inr d \<Longrightarrow> select_data td s = d"
  by (simp add: select_data_def)

lemma trail_get_log_one:
  "trail_get (log_one gn (t0, res) ml) t k =
     (if t = t0 \<and> k = gn then Some (PDict res) else trail_get ml t k)"
  by (auto simp: log_one_def trail_get_def dict_get_def update_conv' Let_def
           split: option.splits)

lemma keys_log_one: "fst ` set (log_one gn (t0, res) ml) = insert t0 (fst ` set ml)"
  by (auto simp: log_one_def dom_update Let_def)

lemma same_gate_entries_refl: "same_gate_entries a a"
  by (simp add: same_gate_entries_def)

lemma same_gate_entries_trans:
  "same_gate_entries a b \<Longrightarrow> same_gate_entries b c \<Longrightarrow> same_gate_entries a c"
  by (simp add: same_gate_entries_def)

lemma log_one_same:
  "same_gate_entries a b \<Longrightarrow> same_gate_entries (log_one gn x a) (log_one gn x b)"
  by (cases x) (simp add: same_gate_entries_def trail_get_log_one keys_log_one)

lemma log_gate_results_same:
  "same_gate_entries a b \<Longrightarrow>
   same_gate_entries (log_gate_results a gn r) (log_gate_results b gn r)"
  unfolding log_gate_results_def
  by (induction r arbitrary: a b) (simp_all add: log_one_same)

lemma tag_status_same: "same_gate_entries (tag_status fr t) fr"
  by (auto simp: same_gate_entries_def tag_status_def trail_get_def update_conv' dom_update
           split: option.splits dest: map_of_SomeD intro: rev_image_eqI)

lemma capture_watchlist_Inr:
  "capture_watchlist r1 r2 r2b r3 caps p3 ts cs fr = Inr (cs', fr') \<Longrightarrow>
     cs' = cs @ map (\<lambda>t. spring_entry r1 r2 r2b r3 caps t
                           (dict_get (dict_get r3 t []) ''reason'' (PStr [])))
                  (filter (watchlisted r3 p3) ts)
     \<and> same_gate_entries fr' fr"
proof (induction ts arbitrary: cs fr)
  case Nil
  then show ?case by (simp add: same_gate_entries_refl)
next
  case (Cons t ts)
  show ?case
  proof (cases "t \<in> set p3")
    case True
    with Cons.prems Cons.IH [of cs fr] show ?thesis
      by (simp add: watchlisted_def)
  next
    case False
    show ?thesis
    proof (cases "is_sniper_fail (dict_get (dict_get r3 t []) ''reason'' (PStr []))")
      case (Inl e)
      with False Cons.prems show ?thesis by (simp add: Let_def)
    next
      case (Inr b)
      show ?thesis
      proof (cases b)
        case True
        with Inr False Cons.prems
        have "capture_watchlist r1 r2 r2b r3 caps p3 ts
                (cs @ [spring_entry r1 r2 r2b r3 caps t
                         (dict_get (dict_get r3 t []) ''reason'' (PStr []))])
                (tag_status fr t) = Inr (cs', fr')"
          by (simp add: Let_def)
        from Cons.IH [OF this] True Inr False show ?thesis
          by (auto simp: watchlisted_def intro: same_gate_entries_trans tag_status_same)
      next
        case no: False
        with Inr False Cons.prems
        have "capture_watchlist r1 r2 r2b r3 caps p3 ts cs fr = Inr (cs', fr')"
          by (simp add: Let_def)
        from Cons.IH [OF this] no Inr False show ?thesis
          by (simp add: watchlisted_def)
      qed
    qed
  qed
qed

lemma capture_watchlist_total:
  assumes "\<And>t. t \<in> set ts \<Longrightarrow>
             \<exists>b. is_sniper_fail (dict_get (dict_get r3 t []) ''reason'' (PStr [])) = Inr b"
  shows "\<exists>res. capture_watchlist r1 r2 r2b r3 caps p3 ts cs fr = Inr res"
  using assms
proof (induction ts arbitrary: cs fr)
  case Nil
  then show ?case by simp
next
  case (Cons t ts)
  from Cons.prems [of t] obtain b
    where b: "is_sniper_fail (dict_get (dict_get r3 t []) ''reason'' (PStr [])) = Inr b"
    by auto
  have rest: "\<And>cs fr. \<exists>res. capture_watchlist r1 r2 r2b r3 caps p3 ts cs fr = Inr res"
    using Cons.IH Cons.prems by simp
  show ?case
    using b rest by (cases b) (simp_all add: Let_def)
qed

lemma run_pipeline_unfold:
  "run_pipeline g td sm =
    (if fst (pipe_g1 g td sm) = []
     then Inr ([], log_gate_results [] ''Gate1_Spread'' (snd (pipe_g1 g td sm)), [])
     else case dict_comp td (fst (pipe_g1 g td sm)) [] of
       Inl e \<Rightarrow> Inl e
     | Inr d1 \<Rightarrow>
     if fst (pipe_g2 g td sm) = []
     then Inr ([], log_gate_results
                     (log_gate_results [] ''Gate1_Spread'' (snd (pipe_g1 g td sm)))
                     ''Gate2_Fundamentals'' (snd (pipe_g2 g td sm)), [])
     else if fst (pipe_g2b g td sm) = []
     then Inr ([], log_gate_results
                     (log_gate_results
                        (log_gate_results [] ''Gate1_Spread'' (snd (pipe_g1 g td sm)))
                        ''Gate2_Fundamentals'' (snd (pipe_g2 g td sm)))
                     ''Gate2B_Institutional'' (snd (pipe_g2b g td sm)), [])
     else case dict_comp td (fst (pipe_g2b g td sm)) [] of
       Inl e \<Rightarrow> Inl e
     | Inr d2b \<Rightarrow>
      (case capture_watchlist (snd (pipe_g1 g td sm)) (snd (pipe_g2 g td sm))
              (snd (pipe_g2b g td sm)) (snd (pipe_g3 g td sm)) (pipe_caps g td sm)
              (fst (pipe_g3 g td sm)) (fst (pipe_g2b g td sm)) [] (pipe_trail4 g td sm) of
         Inl e \<Rightarrow> Inl e
       | Inr (cs, fr5) \<Rightarrow>
           if fst (pipe_g3 g td sm) = [] then Inr ([], fr5, cs)
           else case dict_comp td (fst (pipe_g3 g td sm)) [] of
                  Inl e \<Rightarrow> Inl e
                | Inr d3 \<Rightarrow>
                    Inr (fst (pipe_g4 g td sm),
                         log_gate_results fr5 ''Gate4_Execution'' (snd (pipe_g4 g td sm)),
                         cs)))"
proof -
  obtain p1 r1 where g1: "gate1_run g td sm = (p1, r1)" by force
  obtain p2 r2 where g2: "gate2_run g p1 = (p2, r2)" by force
  obtain p2b r2b where g2b: "gate2b_run g p2 (build_market_cap_map sm p2) = (p2b, r2b)"
    by force
  have v1: "pipe_g1 g td sm = (p1, r1)"
    by (simp add: pipe_g1_def g1)
  have v2: "pipe_g2 g td sm = (p2, r2)"
    by (simp add: pipe_g2_def v1 g2)
  have vc: "pipe_caps g td sm = build_market_cap_map sm p2"
    by (simp add: pipe_caps_def v2)
  have v2b: "pipe_g2b g td sm = (p2b, r2b)"
    by (simp add: pipe_g2b_def v2 vc g2b)
  show ?thesis
  proof (cases "dict_comp td p2b []")
    case (Inl e)
    then show ?thesis
      by (simp add: run_pipeline_def g1 g2 g2b v1 v2 vc v2b Let_def split: sum.splits)
  next
    case (Inr d2b)
    obtain p3 r3 where g3: "gate3_run g d2b = (p3, r3)" by force
    have v3: "pipe_g3 g td sm = (p3, r3)"
      by (simp add: pipe_g3_def v2b select_data_def Inr g3)
    have t4: "pipe_trail4 g td sm =
        log_gate_results
          (log_gate_results
             (log_gate_results (log_gate_results [] ''Gate1_Spread'' r1)
                ''Gate2_Fundamentals'' r2)
             ''Gate2B_Institutional'' r2b)
          ''Gate3_Technicals'' r3"
      by (simp add: pipe_trail4_def v1 v2 v2b v3)
    show ?thesis
    proof (cases "dict_comp td p3 []")
      case e3: (Inl e)
      then show ?thesis
        by (simp add: run_pipeline_def g1 g2 g2b g3 v1 v2 vc v2b v3 t4 Inr Let_def
              split: sum.splits prod.splits)
    next
      case d3: (Inr d3)
      obtain p4 r4 where g4: "gate4_run g d3 = (p4, r4)" by force
      have v4: "pipe_g4 g td sm = (p4, r4)"
        by (simp add: pipe_g4_def v3 select_data_def d3 g4)
      show ?thesis
        by (simp add: run_pipeline_def g1 g2 g2b g3 g4 v1 v2 vc v2b v3 v4 t4 Inr d3 Let_def
              split: sum.splits prod.splits)
    qed
  qed
qed

lemma run_stages_unfold:
  "run_stages (pipeline_stages g td sm) s0 [] =
    (if fst (pipe_g1 g td sm) = []
     then ([], log_gate_results [] ''Gate1_Spread'' (snd (pipe_g1 g td sm)))
     else if fst (pipe_g2 g td sm) = []
     then ([], log_gate_results
                     (log_gate_results [] ''Gate1_Spread'' (snd (pipe_g1 g td sm)))
                     ''Gate2_Fundamentals'' (snd (pipe_g2 g td sm)))
     else if fst (pipe_g2b g td sm) = []
     then ([], log_gate_results
                     (log_gate_results
                        (log_gate_results [] ''Gate1_Spread'' (snd (pipe_g1 g td sm)))
                        ''Gate2_Fundamentals'' (snd (pipe_g2 g td sm)))
                     ''Gate2B_Institutional'' (snd (pipe_g2b g td sm)))
     else if fst (pipe_g3 g td sm) = [] then ([], pipe_trail4 g td sm)
     else (fst (pipe_g4 g td sm),
           log_gate_results (pipe_trail4 g td sm) ''Gate4_Execution'' (snd (pipe_g4 g td sm))))"
  by (simp add: pipeline_stages_def pipe_g1_def pipe_g2_def pipe_caps_def pipe_g2b_def pipe_g3_def
        pipe_g4_def pipe_trail4_def Let_def
      split: prod.splits)

lemma is_sniper_fail_text: "\<exists>b. is_sniper_fail (PStr s) = Inr b"
  by (auto simp: is_sniper_fail_def)

lemma gate3_reason_readable:
  assumes "gate3_reasons_text g"
  shows "\<exists>b. is_sniper_fail
           (dict_get (dict_get (snd (gate3_run g data)) t []) ''reason'' (PStr [])) = Inr b"
proof (cases "map_of (snd (gate3_run g data)) t")
  case None
  then show ?thesis by (simp add: dict_get_def is_sniper_fail_text)
next
  case (Some d)
  show ?thesis
  proof (cases "map_of d ''reason''")
    case None
    with Some show ?thesis by (simp add: dict_get_def is_sniper_fail_text)
  next
    case v: (Some v)
    with assms Some obtain s where "v = PStr s"
      unfolding gate3_reasons_text_def by blast
    with Some v show ?thesis by (simp add: dict_get_def is_sniper_fail_text)
  qed
qed

lemma run_pipeline_total:
  assumes n: "gates_narrow g" and r: "gate3_reasons_text g"
  shows "\<exists>res. run_pipeline g td sm = Inr res"
proof -
  from n have s1: "set (fst (pipe_g1 g td sm)) \<subseteq> fst ` set td"
    and s2: "set (fst (pipe_g2 g td sm)) \<subseteq> set (fst (pipe_g1 g td sm))"
    and s2b: "set (fst (pipe_g2b g td sm)) \<subseteq> set (fst (pipe_g2 g td sm))"
    and s3: "set (fst (pipe_g3 g td sm)) \<subseteq> fst ` set (select_data td (fst (pipe_g2b g td sm)))"
    by (simp_all add: gates_narrow_def pipe_g1_def pipe_g2_def pipe_g2b_def pipe_g3_def)
  from dict_comp_total [OF s1] obtain d1
    where d1: "dict_comp td (fst (pipe_g1 g td sm)) [] = Inr d1" by blast
  from s1 s2 s2b have "set (fst (pipe_g2b g td sm)) \<subseteq> fst ` set td" by blast
  from dict_comp_total [OF this] obtain d2b
    where d2b: "dict_comp td (fst (pipe_g2b g td sm)) [] = Inr d2b" by blast
  from s3 select_data_keys [of td "fst (pipe_g2b g td sm)"] s1 s2 s2b
  have "set (fst (pipe_g3 g td sm)) \<subseteq> fst ` set td" by blast
  from dict_comp_total [OF this] obtain d3
    where d3: "dict_comp td (fst (pipe_g3 g td sm)) [] = Inr d3" by blast
  have "\<exists>res. capture_watchlist (snd (pipe_g1 g td sm)) (snd (pipe_g2 g td sm))
              (snd (pipe_g2b g td sm)) (snd (pipe_g3 g td sm)) (pipe_caps g td sm)
              (fst (pipe_g3 g td sm)) (fst (pipe_g2b g td sm)) [] (pipe_trail4 g td sm) = Inr res"
    by (rule capture_watchlist_total) (simp add: pipe_g3_def gate3_reason_readable [OF r])
  then obtain cs fr5 where
    w: "capture_watchlist (snd (pipe_g1 g td sm)) (snd (pipe_g2 g td sm))
              (snd (pipe_g2b g td sm)) (snd (pipe_g3 g td sm)) (pipe_caps g td sm)
              (fst (pipe_g3 g td sm)) (fst (pipe_g2b g td sm)) [] (pipe_trail4 g td sm)
          = Inr (cs, fr5)"
    by force
  show ?thesis
    unfolding run_pipeline_unfold d1 d2b d3 w by simp
qed

lemma run_pipeline_staged:
  assumes "run_pipeline g td sm = Inr (cands, fr, springs)"
  shows "cands = fst (run_stages (pipeline_stages g td sm) (map fst td) [])
     \<and> same_gate_entries fr (snd (run_stages (pipeline_stages g td sm) (map fst td) []))
     \<and> (pipe_survivors_g2b g td sm = [] \<or> fst (pipe_g3 g td sm) = [] \<longrightarrow> cands = [])"
proof -
  let ?w = "capture_watchlist (snd (pipe_g1 g td sm)) (snd (pipe_g2 g td sm))
              (snd (pipe_g2b g td sm)) (snd (pipe_g3 g td sm)) (pipe_caps g td sm)
              (fst (pipe_g3 g td sm)) (fst (pipe_g2b g td sm)) [] (pipe_trail4 g td sm)"
  show ?thesis
  proof (cases "fst (pipe_g1 g td sm) = [] \<or> fst (pipe_g2 g td sm) = []
                  \<or> fst (pipe_g2b g td sm) = []")
    case True
    with assms show ?thesis
      unfolding run_pipeline_unfold run_stages_unfold pipe_survivors_g2b_def
      by (auto simp: same_gate_entries_refl split: if_splits sum.splits)
  next
    case False
    with assms obtain cs fr5 where w: "?w = Inr (cs, fr5)"
      unfolding run_pipeline_unfold by (auto split: if_splits sum.splits)
    from capture_watchlist_Inr [OF w] have same5: "same_gate_entries fr5 (pipe_trail4 g td sm)"
      by simp
    show ?thesis
    proof (cases "fst (pipe_g3 g td sm) = []")
      case True
      with assms False w same5 show ?thesis
        unfolding run_pipeline_unfold run_stages_unfold pipe_survivors_g2b_def
        by (auto split: if_splits sum.splits)
    next
      case ne: False
      with assms False w have c: "cands = fst (pipe_g4 g td sm)"
        and f: "fr = log_gate_results fr5 ''Gate4_Execution'' (snd (pipe_g4 g td sm))"
        unfolding run_pipeline_unfold by (auto split: if_splits sum.splits)
      from log_gate_results_same [OF same5]
      have "same_gate_entries fr
              (log_gate_results (pipe_trail4 g td sm) ''Gate4_Execution'' (snd (pipe_g4 g td sm)))"
        unfolding f .
      with c False ne show ?thesis
        unfolding run_stages_unfold pipe_survivors_g2b_def by simp
    qed
  qed
qed

text \<open>
  Claim C1. Whenever \<open>run_pipeline\<close> returns, its candidates and the gate entries of its
  rationale are those of the staged fold: Gate 1, Gate 2, Gate 2B, Gate 3, Gate 4 in that
  order, each on the survivors of the one before, stopping with no candidates at the first
  stage that leaves no survivor and keeping the results of every gate that ran. With
  gates that only narrow and give their reasons as strings it always returns.
\<close>

theorem run_pipeline_follows_stage_order:
  "(\<forall>cands fr springs. run_pipeline g td sm = Inr (cands, fr, springs) \<longrightarrow>
       cands = fst (run_stages (pipeline_stages g td sm) (map fst td) []) \<and>
       same_gate_entries fr (snd (run_stages (pipeline_stages g td sm) (map fst td) [])) \<and>
       (pipe_survivors_g2b g td sm = [] \<or> fst (pipe_g3 g td sm) = [] \<longrightarrow> cands = []))
   \<and> (gates_narrow g \<and> gate3_reasons_text g \<longrightarrow> (\<exists>res. run_pipeline g td sm = Inr res))"
  using run_pipeline_staged [of g td sm] run_pipeline_total [of g td sm] by blast

lemma example_gates_narrow: "gates_narrow example_gates"
  by (auto simp: gates_narrow_def example_gates_def verdict_gate_def)

lemma verdict_gate_result:
  "map_of (snd (verdict_gate table tickers)) t = Some d \<Longrightarrow>
   d = dict_get table t [(''passed'', PBool False)]"
  by (auto simp: verdict_gate_def map_of_map_restrict restrict_map_def split: if_splits)

lemma example_gate3_reasons_text: "gate3_reasons_text example_gates"
  unfolding gate3_reasons_text_def
proof (intro allI impI)
  fix td t d v
  assume "map_of (snd (gate3_run example_gates td)) t = Some d"
  then have "map_of (snd (verdict_gate
        [(''A'', [(''passed'', PBool True), (''pattern'', PStr ''VCP Tight''),
                  (''reason'', PStr ''Trend OK'')]),
         (''B'', [(''passed'', PBool False), (''reason'', PStr ''ADX 8 < 10'')]),
         (''C'', [(''passed'', PBool False), (''reason'', PStr ''Price below MA200'')]),
         (''E'', [(''passed'', PBool True), (''reason'', PStr ''Trend OK'')]),
         (''F'', [(''passed'', PBool True), (''pattern'', PNone),
                  (''reason'', PStr ''Trend OK'')])] (map fst td))) t = Some d"
    by (simp add: example_gates_def)
  from verdict_gate_result [OF this] have d: "d = dict_get
        [(''A'', [(''passed'', PBool True), (''pattern'', PStr ''VCP Tight''),
                  (''reason'', PStr ''Trend OK'')]),
         (''B'', [(''passed'', PBool False), (''reason'', PStr ''ADX 8 < 10'')]),
         (''C'', [(''passed'', PBool False), (''reason'', PStr ''Price below MA200'')]),
         (''E'', [(''passed'', PBool True), (''reason'', PStr ''Trend OK'')]),
         (''F'', [(''passed'', PBool True), (''pattern'', PNone),
                  (''reason'', PStr ''Trend OK'')])] t [(''passed'', PBool False)]" .
  assume "map_of d ''reason'' = Some v"
  then show "\<exists>s. v = PStr s"
    unfolding d by (auto simp: dict_get_def split: if_splits)
qed

lemma example_stage_survivors:
  "fst (pipe_g1 example_gates example_batch None) = [''A'', ''B'', ''C'', ''E'', ''F'']"
  "fst (pipe_g2 example_gates example_batch None) = [''A'', ''B'', ''C'', ''E'', ''F'']"
  "fst (pipe_g2b example_gates example_batch None) = [''A'', ''B'', ''C'', ''E'', ''F'']"
  "fst (pipe_g3 example_gates example_batch None) = [''A'', ''E'', ''F'']"
  "fst (pipe_g4 example_gates example_batch None) = [''A'']"
  by code_simp+

lemma example_pipeline_returns: "example_pipeline = Inr (projr example_pipeline)"
proof -
  from run_pipeline_total [OF example_gates_narrow example_gate3_reasons_text]
  obtain res where "run_pipeline example_gates example_batch None = Inr res" by blast
  then show ?thesis by (simp add: example_pipeline_def)
qed

theorem run_pipeline_stage_order_witness:
  "gates_narrow example_gates \<and> gate3_reasons_text example_gates
   \<and> example_pipeline = Inr (projr example_pipeline)
   \<and> fst (projr example_pipeline) = [''A'']
   \<and> fst (run_stages (pipeline_stages example_gates example_batch None)
             (map fst example_batch) []) = [''A'']
   \<and> same_gate_entries (fst (snd (projr example_pipeline)))
        (snd (run_stages (pipeline_stages example_gates example_batch None)
                (map fst example_batch) []))"
proof -
  have run: "run_pipeline example_gates example_batch None
               = Inr (fst (projr example_pipeline), fst (snd (projr example_pipeline)),
                      snd (snd (projr example_pipeline)))"
    using example_pipeline_returns
    by (simp only: example_pipeline_def [symmetric] prod.collapse)
  have st': "fst (run_stages (pipeline_stages example_gates example_batch None)
                              (map fst example_batch) []) = [''A'']"
    by (simp add: run_stages_unfold example_stage_survivors)
  have part: "\<forall>cands fr springs.
       run_pipeline example_gates example_batch None = Inr (cands, fr, springs) \<longrightarrow>
       cands = fst (run_stages (pipeline_stages example_gates example_batch None)
                      (map fst example_batch) []) \<and>
       same_gate_entries fr (snd (run_stages (pipeline_stages example_gates example_batch None)
                      (map fst example_batch) [])) \<and>
       (pipe_survivors_g2b example_gates example_batch None = [] \<or>
        fst (pipe_g3 example_gates example_batch None) = [] \<longrightarrow> cands = [])"
    by (rule conjunct1 [OF run_pipeline_follows_stage_order])
  from part [rule_format, OF run]
  have st: "fst (projr example_pipeline)
              = fst (run_stages (pipeline_stages example_gates example_batch None)
                       (map fst example_batch) [])"
    and tr: "same_gate_entries (fst (snd (projr example_pipeline)))
               (snd (run_stages (pipeline_stages example_gates example_batch None)
                       (map fst example_batch) []))"
    by (rule conjunct1, rule conjunct1 [OF conjunct2])
  have c: "fst (projr example_pipeline) = [''A'']"
    unfolding st by (rule st')
  show ?thesis
    using example_gates_narrow example_gate3_reasons_text example_pipeline_returns c st' tr
    by (intro conjI)
qed

end
